theory Spec2Isabelle
  imports Main
begin

section \<open>Data model of backend/server.py\<close>

text \<open>
  The status classes of the source hold string constants; each becomes a datatype, and the
  string the source stores and prints is given by a function.
\<close>

datatype ScheduleStatus = UPCOMING | ONLINE | COMPLETED

datatype QueueStatus = WAITING | READY | IN_CALL | DONE

datatype CallSessionStatus = INVITED | CONFIRMED | ACTIVE | ENDED | DECLINED | EXPIRED

fun CallSessionStatus_str :: "CallSessionStatus \<Rightarrow> string" where
  "CallSessionStatus_str INVITED = ''INVITED''"
| "CallSessionStatus_str CONFIRMED = ''CONFIRMED''"
| "CallSessionStatus_str ACTIVE = ''ACTIVE''"
| "CallSessionStatus_str ENDED = ''ENDED''"
| "CallSessionStatus_str DECLINED = ''DECLINED''"
| "CallSessionStatus_str EXPIRED = ''EXPIRED''"

text \<open>
  Timestamps. The source stores \<^verbatim>\<open>datetime.now(timezone.utc).isoformat()\<close> and compares
  two such strings with \<^verbatim>\<open>$lt\<close>. All of them are UTC readings in the same format, for
  which the order of the strings is the order of the instants, so a timestamp is modelled
  as the instant itself: an integer number of microseconds.
\<close>

type_synonym timestamp = int

definition sixty_seconds :: int where
  "sixty_seconds = 60 * 1000000"

text \<open>The documents of the four collections, with the fields the handlers write.\<close>

record schedule =
  s_id :: string
  s_doctorId :: string
  s_date :: string
  s_startTime :: string
  s_endTime :: string
  s_status :: ScheduleStatus

record queue_entry =
  q_id :: string
  q_scheduleId :: string
  q_patientId :: string
  queueNumber :: int
  q_status :: QueueStatus
  isReady :: bool
  joinedAt :: timestamp

record call_session =
  c_id :: string
  c_scheduleId :: string
  c_doctorId :: string
  c_patientId :: string
  c_status :: CallSessionStatus
  createdAt :: timestamp
  confirmedAt :: "timestamp option"
  endedAt :: "timestamp option"
  doctorPeerId :: "string option"
  patientPeerId :: "string option"

record audit_log =
  a_id :: string
  actorUserId :: string
  actionType :: string
  a_scheduleId :: "string option"
  a_patientId :: "string option"
  a_callSessionId :: "string option"
  a_timestamp :: timestamp
  metadata :: "(string \<times> bool) list"

text \<open>
  The database: each collection is the list of its documents in insertion order, the order
  in which \<^verbatim>\<open>find_one\<close> and \<^verbatim>\<open>update_one\<close> meet them.
\<close>

record db =
  schedules :: "schedule list"
  queue_entries :: "queue_entry list"
  call_sessions :: "call_session list"
  audit_logs :: "audit_log list"

text \<open>
  What a request reads from outside the database: the \<open>n\<close>-th reading of the clock and the
  \<open>n\<close>-th result of \<^verbatim>\<open>uuid.uuid4()\<close>, counted from 0 in the order the handler takes them.
\<close>

record env =
  clock :: "nat \<Rightarrow> timestamp"
  uuid4 :: "nat \<Rightarrow> string"

text \<open>
  What a handler raises: an \<open>HTTPException\<close> with its status code and detail, or the
  \<open>OverflowError\<close> of the driver, which stores an integer in at most eight bytes and refuses
  a document that holds a larger one before anything is written.
\<close>

datatype http_error = HTTPException nat string | OverflowError

definition int64_range :: "int \<Rightarrow> bool" where
  "int64_range n = (- (2 ^ 63) \<le> n \<and> n \<le> 2 ^ 63 - 1)"

text \<open>The JSON objects the handlers return, by shape.\<close>

datatype response =
    Msg string
  | MsgSchedule string ScheduleStatus
  | MsgInvited string string CallSessionStatus
  | MsgJoined string int string
  | MsgReady string bool QueueStatus
  | MsgCall string string
  | Created schedule

type_synonym outcome = "(http_error + response) \<times> db"

section \<open>The collection operations the handlers use\<close>

definition find_one :: "('a \<Rightarrow> bool) \<Rightarrow> 'a list \<Rightarrow> 'a option" where
  "find_one p xs = List.find p xs"

fun update_one :: "('a \<Rightarrow> bool) \<Rightarrow> ('a \<Rightarrow> 'a) \<Rightarrow> 'a list \<Rightarrow> 'a list" where
  "update_one p f [] = []"
| "update_one p f (x # xs) = (if p x then f x # xs else x # update_one p f xs)"

definition update_many :: "('a \<Rightarrow> bool) \<Rightarrow> ('a \<Rightarrow> 'a) \<Rightarrow> 'a list \<Rightarrow> 'a list" where
  "update_many p f xs = map (\<lambda>x. if p x then f x else x) xs"

definition insert_one :: "'a \<Rightarrow> 'a list \<Rightarrow> 'a list" where
  "insert_one x xs = xs @ [x]"

text \<open>
  \<^verbatim>\<open>find_one(filter, sort=[("queueNumber", -1)])\<close>: a document of the largest
  \<open>queueNumber\<close> among those matching, none when nothing matches.
\<close>

fun find_one_sorted_desc :: "('a \<Rightarrow> bool) \<Rightarrow> ('a \<Rightarrow> int) \<Rightarrow> 'a list \<Rightarrow> 'a option" where
  "find_one_sorted_desc p k [] = None"
| "find_one_sorted_desc p k (x # xs) =
     (case find_one_sorted_desc p k xs of
        None \<Rightarrow> (if p x then Some x else None)
      | Some y \<Rightarrow> (if p x \<and> k y \<le> k x then Some x else Some y))"

definition log_audit ::
  "string \<Rightarrow> timestamp \<Rightarrow> string \<Rightarrow> string \<Rightarrow> string option \<Rightarrow> string option \<Rightarrow>
   string option \<Rightarrow> (string \<times> bool) list \<Rightarrow> db \<Rightarrow> db" where
  "log_audit new_id now actor_id action_type schedule_id patient_id call_session_id meta d =
     d\<lparr>audit_logs := insert_one
        \<lparr>a_id = new_id, actorUserId = actor_id, actionType = action_type,
         a_scheduleId = schedule_id, a_patientId = patient_id,
         a_callSessionId = call_session_id, a_timestamp = now, metadata = meta\<rparr>
        (audit_logs d)\<rparr>"

definition is_active :: "CallSessionStatus \<Rightarrow> bool" where
  "is_active st = (st = INVITED \<or> st = CONFIRMED \<or> st = ACTIVE)"

section \<open>The handlers that write to the database\<close>

text \<open>
  Each handler takes the identifier of the authenticated user FastAPI hands to it (the
  dependencies \<^verbatim>\<open>require_doctor\<close>, \<^verbatim>\<open>require_patient\<close> and \<^verbatim>\<open>get_current_user\<close> have
  succeeded), the environment and the database, and returns the raised exception
  or the response, together with the database as the request leaves it. The Socket.IO
  events a handler emits after its writes touch no collection and are not modelled.
\<close>

definition create_schedule :: "string \<Rightarrow> string \<Rightarrow> string \<Rightarrow> string \<Rightarrow> env \<Rightarrow> db \<Rightarrow> outcome" where
  "create_schedule date start_time end_time user_id e d =
     (let schedule_id = uuid4 e 0;
          sched = \<lparr>s_id = schedule_id, s_doctorId = user_id, s_date = date,
                   s_startTime = start_time, s_endTime = end_time, s_status = UPCOMING\<rparr>;
          d1 = d\<lparr>schedules := insert_one sched (schedules d)\<rparr>;
          d2 = log_audit (uuid4 e 1) (clock e 0) user_id ''SCHEDULE_CREATED''
                 (Some schedule_id) None None [] d1
      in (Inr (Created sched), d2))"

definition start_practice :: "string \<Rightarrow> string \<Rightarrow> env \<Rightarrow> db \<Rightarrow> outcome" where
  "start_practice schedule_id user_id e d =
     (case find_one (\<lambda>s. s_id s = schedule_id \<and> s_doctorId s = user_id) (schedules d) of
        None \<Rightarrow> (Inl (HTTPException 404 ''Schedule not found''), d)
      | Some sched \<Rightarrow>
          if s_status sched = ONLINE then (Inl (HTTPException 400 ''Practice already started''), d)
          else if s_status sched = COMPLETED
            then (Inl (HTTPException 400 ''Practice already completed''), d)
          else
            (let d1 = d\<lparr>schedules := update_one (\<lambda>s. s_id s = schedule_id)
                                        (\<lambda>s. s\<lparr>s_status := ONLINE\<rparr>) (schedules d)\<rparr>;
                 d2 = log_audit (uuid4 e 0) (clock e 0) user_id ''PRACTICE_STARTED''
                        (Some schedule_id) None None [] d1
             in (Inr (MsgSchedule ''Practice started'' ONLINE), d2)))"

definition end_practice :: "string \<Rightarrow> string \<Rightarrow> env \<Rightarrow> db \<Rightarrow> outcome" where
  "end_practice schedule_id user_id e d =
     (case find_one (\<lambda>s. s_id s = schedule_id \<and> s_doctorId s = user_id) (schedules d) of
        None \<Rightarrow> (Inl (HTTPException 404 ''Schedule not found''), d)
      | Some sched \<Rightarrow>
          (let d1 = d\<lparr>schedules := update_one (\<lambda>s. s_id s = schedule_id)
                                      (\<lambda>s. s\<lparr>s_status := COMPLETED\<rparr>) (schedules d)\<rparr>;
               d2 = d1\<lparr>call_sessions := update_many
                        (\<lambda>c. c_scheduleId c = schedule_id \<and> is_active (c_status c))
                        (\<lambda>c. c\<lparr>c_status := ENDED, endedAt := Some (clock e 0)\<rparr>)
                        (call_sessions d1)\<rparr>;
               d3 = log_audit (uuid4 e 0) (clock e 1) user_id ''PRACTICE_ENDED''
                      (Some schedule_id) None None [] d2
           in (Inr (MsgSchedule ''Practice ended'' COMPLETED), d3)))"

text \<open>
  \<^verbatim>\<open>start_call\<close> in two parts: the reads and the expiry sweep up to the last check, and the
  insertion of the invitation with its audit entry. Every database call of the source is
  awaited, so another request may run between the two parts; \<open>start_call\<close> itself is the
  one part followed by the other.
\<close>

definition start_call_checks :: "string \<Rightarrow> string \<Rightarrow> string \<Rightarrow> env \<Rightarrow> db \<Rightarrow> (http_error + unit) \<times> db" where
  "start_call_checks schedule_id patientId user_id e d =
     (case find_one (\<lambda>s. s_id s = schedule_id \<and> s_doctorId s = user_id) (schedules d) of
        None \<Rightarrow> (Inl (HTTPException 404 ''Schedule not found''), d)
      | Some sched \<Rightarrow>
          if s_status sched \<noteq> ONLINE then (Inl (HTTPException 400 ''Practice not online''), d)
          else
            (let sixty_seconds_ago = clock e 0 - sixty_seconds;
                 d1 = d\<lparr>call_sessions := update_many
                        (\<lambda>c. c_scheduleId c = schedule_id \<and> c_status c = INVITED
                              \<and> createdAt c < sixty_seconds_ago)
                        (\<lambda>c. c\<lparr>c_status := EXPIRED, endedAt := Some (clock e 1)\<rparr>)
                        (call_sessions d)\<rparr>
             in case find_one (\<lambda>c. c_scheduleId c = schedule_id \<and> is_active (c_status c))
                       (call_sessions d1) of
                  Some active_call \<Rightarrow>
                    (Inl (HTTPException 400 ''Another call is already active''), d1)
                | None \<Rightarrow>
                    (case find_one (\<lambda>q. q_scheduleId q = schedule_id \<and> q_patientId q = patientId)
                            (queue_entries d1) of
                       None \<Rightarrow> (Inl (HTTPException 404 ''Patient not in queue''), d1)
                     | Some entry \<Rightarrow>
                         if q_status entry \<noteq> READY
                         then (Inl (HTTPException 400 ''Patient is not ready''), d1)
                         else (Inr (), d1))))"

definition start_call_create :: "string \<Rightarrow> string \<Rightarrow> string \<Rightarrow> env \<Rightarrow> db \<Rightarrow> outcome" where
  "start_call_create schedule_id patientId user_id e d =
     (let call_session_id = uuid4 e 0;
          call_session = \<lparr>c_id = call_session_id, c_scheduleId = schedule_id,
                          c_doctorId = user_id, c_patientId = patientId, c_status = INVITED,
                          createdAt = clock e 2, confirmedAt = None, endedAt = None,
                          doctorPeerId = None, patientPeerId = None\<rparr>;
          d1 = d\<lparr>call_sessions := insert_one call_session (call_sessions d)\<rparr>;
          d2 = log_audit (uuid4 e 1) (clock e 3) user_id ''CALL_INVITED''
                 (Some schedule_id) (Some patientId) (Some call_session_id) [] d1
      in (Inr (MsgInvited ''Invitation sent'' call_session_id INVITED), d2))"

definition start_call :: "string \<Rightarrow> string \<Rightarrow> string \<Rightarrow> env \<Rightarrow> db \<Rightarrow> outcome" where
  "start_call schedule_id patientId user_id e d =
     (case start_call_checks schedule_id patientId user_id e d of
        (Inl err, d1) \<Rightarrow> (Inl err, d1)
      | (Inr ok, d1) \<Rightarrow> start_call_create schedule_id patientId user_id e d1)"

definition set_doctor_peer_id :: "string \<Rightarrow> string \<Rightarrow> string \<Rightarrow> db \<Rightarrow> outcome" where
  "set_doctor_peer_id call_session_id peerId user_id d =
     (case find_one (\<lambda>c. c_id c = call_session_id \<and> c_doctorId c = user_id) (call_sessions d) of
        None \<Rightarrow> (Inl (HTTPException 404 ''Call session not found''), d)
      | Some session \<Rightarrow>
          (Inr (Msg ''Peer ID set''),
           d\<lparr>call_sessions := update_one (\<lambda>c. c_id c = call_session_id)
                                 (\<lambda>c. c\<lparr>doctorPeerId := Some peerId\<rparr>) (call_sessions d)\<rparr>))"

definition end_call_doctor :: "string \<Rightarrow> string \<Rightarrow> env \<Rightarrow> db \<Rightarrow> outcome" where
  "end_call_doctor call_session_id user_id e d =
     (case find_one (\<lambda>c. c_id c = call_session_id \<and> c_doctorId c = user_id) (call_sessions d) of
        None \<Rightarrow> (Inl (HTTPException 404 ''Call session not found''), d)
      | Some session \<Rightarrow>
          (let d1 = d\<lparr>call_sessions := update_one (\<lambda>c. c_id c = call_session_id)
                        (\<lambda>c. c\<lparr>c_status := ENDED, endedAt := Some (clock e 0)\<rparr>)
                        (call_sessions d)\<rparr>;
               d2 = d1\<lparr>queue_entries := update_one
                        (\<lambda>q. q_scheduleId q = c_scheduleId session
                              \<and> q_patientId q = c_patientId session)
                        (\<lambda>q. q\<lparr>q_status := DONE\<rparr>) (queue_entries d1)\<rparr>;
               d3 = log_audit (uuid4 e 0) (clock e 1) user_id ''CALL_ENDED''
                      (Some (c_scheduleId session)) (Some (c_patientId session))
                      (Some call_session_id) [] d2
           in (Inr (Msg ''Call ended''), d3)))"

text \<open>
  \<^verbatim>\<open>join_queue\<close> in two parts, as \<open>start_call\<close>: the three reads that end with the next queue
  number, and the insertion of the entry with its audit entry. The insertion is a database
  call of its own, awaited after the reads, so another request may run between the two.
\<close>

definition join_queue_checks :: "string \<Rightarrow> string \<Rightarrow> db \<Rightarrow> (http_error + int) \<times> db" where
  "join_queue_checks schedule_id user_id d =
     (case find_one (\<lambda>s. s_id s = schedule_id) (schedules d) of
        None \<Rightarrow> (Inl (HTTPException 404 ''Schedule not found''), d)
      | Some sched \<Rightarrow>
          (case find_one (\<lambda>q. q_scheduleId q = schedule_id \<and> q_patientId q = user_id)
                  (queue_entries d) of
             Some existing \<Rightarrow> (Inl (HTTPException 400 ''Already in queue''), d)
           | None \<Rightarrow>
               (let last_entry = find_one_sorted_desc (\<lambda>q. q_scheduleId q = schedule_id)
                                   queueNumber (queue_entries d);
                    queue_number = (case last_entry of Some l \<Rightarrow> queueNumber l + 1 | None \<Rightarrow> 1)
                in (Inr queue_number, d))))"

definition join_queue_create :: "string \<Rightarrow> string \<Rightarrow> env \<Rightarrow> int \<Rightarrow> db \<Rightarrow> outcome" where
  "join_queue_create schedule_id user_id e queue_number d =
     (let entry_id = uuid4 e 0;
          entry = \<lparr>q_id = entry_id, q_scheduleId = schedule_id, q_patientId = user_id,
                   queueNumber = queue_number, q_status = WAITING, isReady = False,
                   joinedAt = clock e 0\<rparr>
      in if \<not> int64_range queue_number then (Inl OverflowError, d)
         else
           (let d1 = d\<lparr>queue_entries := insert_one entry (queue_entries d)\<rparr>;
                d2 = log_audit (uuid4 e 1) (clock e 1) user_id ''QUEUE_JOINED''
                       (Some schedule_id) (Some user_id) None [] d1
            in (Inr (MsgJoined ''Joined queue'' queue_number entry_id), d2)))"

definition join_queue :: "string \<Rightarrow> string \<Rightarrow> env \<Rightarrow> db \<Rightarrow> outcome" where
  "join_queue schedule_id user_id e d =
     (case join_queue_checks schedule_id user_id d of
        (Inl err, d1) \<Rightarrow> (Inl err, d1)
      | (Inr queue_number, d1) \<Rightarrow> join_queue_create schedule_id user_id e queue_number d1)"

definition toggle_ready :: "string \<Rightarrow> bool \<Rightarrow> string \<Rightarrow> env \<Rightarrow> db \<Rightarrow> outcome" where
  "toggle_ready schedule_id is_ready user_id e d =
     (case find_one (\<lambda>q. q_scheduleId q = schedule_id \<and> q_patientId q = user_id)
             (queue_entries d) of
        None \<Rightarrow> (Inl (HTTPException 404 ''Not in queue''), d)
      | Some entry \<Rightarrow>
          if q_status entry = DONE
            then (Inl (HTTPException 400 ''Consultation already completed''), d)
          else if q_status entry = IN_CALL
            then (Inl (HTTPException 400 ''Currently in call''), d)
          else
            (let new_status = (if is_ready then READY else WAITING);
                 d1 = d\<lparr>queue_entries := update_one
                        (\<lambda>q. q_scheduleId q = schedule_id \<and> q_patientId q = user_id)
                        (\<lambda>q. q\<lparr>q_status := new_status, isReady := is_ready\<rparr>)
                        (queue_entries d)\<rparr>;
                 d2 = log_audit (uuid4 e 0) (clock e 0) user_id ''READY_TOGGLED''
                        (Some schedule_id) (Some user_id) None [(''isReady'', is_ready)] d1
             in (Inr (MsgReady ''Ready status updated'' is_ready new_status), d2)))"

definition confirm_call :: "string \<Rightarrow> string \<Rightarrow> env \<Rightarrow> db \<Rightarrow> outcome" where
  "confirm_call call_session_id user_id e d =
     (case find_one (\<lambda>c. c_id c = call_session_id \<and> c_patientId c = user_id) (call_sessions d) of
        None \<Rightarrow> (Inl (HTTPException 404 ''Call session not found''), d)
      | Some session \<Rightarrow>
          if c_status session \<noteq> INVITED
            then (Inl (HTTPException 400
                   (''Cannot confirm call in status: '' @ CallSessionStatus_str (c_status session))), d)
          else
            (let d1 = d\<lparr>call_sessions := update_one (\<lambda>c. c_id c = call_session_id)
                        (\<lambda>c. c\<lparr>c_status := CONFIRMED, confirmedAt := Some (clock e 0)\<rparr>)
                        (call_sessions d)\<rparr>;
                 d2 = d1\<lparr>queue_entries := update_one
                        (\<lambda>q. q_scheduleId q = c_scheduleId session \<and> q_patientId q = user_id)
                        (\<lambda>q. q\<lparr>q_status := IN_CALL\<rparr>) (queue_entries d1)\<rparr>;
                 d3 = log_audit (uuid4 e 0) (clock e 1) user_id ''CALL_CONFIRMED''
                        (Some (c_scheduleId session)) (Some user_id) (Some call_session_id) [] d2
             in (Inr (MsgCall ''Call confirmed'' call_session_id), d3)))"

definition decline_call :: "string \<Rightarrow> string \<Rightarrow> env \<Rightarrow> db \<Rightarrow> outcome" where
  "decline_call call_session_id user_id e d =
     (case find_one (\<lambda>c. c_id c = call_session_id \<and> c_patientId c = user_id) (call_sessions d) of
        None \<Rightarrow> (Inl (HTTPException 404 ''Call session not found''), d)
      | Some session \<Rightarrow>
          if c_status session \<noteq> INVITED
            then (Inl (HTTPException 400
                   (''Cannot decline call in status: '' @ CallSessionStatus_str (c_status session))), d)
          else
            (let d1 = d\<lparr>call_sessions := update_one (\<lambda>c. c_id c = call_session_id)
                        (\<lambda>c. c\<lparr>c_status := DECLINED, endedAt := Some (clock e 0)\<rparr>)
                        (call_sessions d)\<rparr>;
                 d2 = d1\<lparr>queue_entries := update_one
                        (\<lambda>q. q_scheduleId q = c_scheduleId session \<and> q_patientId q = user_id)
                        (\<lambda>q. q\<lparr>q_status := WAITING, isReady := False\<rparr>) (queue_entries d1)\<rparr>;
                 d3 = log_audit (uuid4 e 0) (clock e 1) user_id ''CALL_DECLINED''
                        (Some (c_scheduleId session)) (Some user_id) (Some call_session_id) [] d2
             in (Inr (Msg ''Call declined''), d3)))"

definition set_patient_peer_id :: "string \<Rightarrow> string \<Rightarrow> string \<Rightarrow> db \<Rightarrow> outcome" where
  "set_patient_peer_id call_session_id peerId user_id d =
     (case find_one (\<lambda>c. c_id c = call_session_id \<and> c_patientId c = user_id) (call_sessions d) of
        None \<Rightarrow> (Inl (HTTPException 404 ''Call session not found''), d)
      | Some session \<Rightarrow>
          (Inr (Msg ''Peer ID set''),
           d\<lparr>call_sessions := update_one (\<lambda>c. c_id c = call_session_id)
                                 (\<lambda>c. c\<lparr>patientPeerId := Some peerId\<rparr>) (call_sessions d)\<rparr>))"

definition end_call_patient :: "string \<Rightarrow> string \<Rightarrow> env \<Rightarrow> db \<Rightarrow> outcome" where
  "end_call_patient call_session_id user_id e d =
     (case find_one (\<lambda>c. c_id c = call_session_id \<and> c_patientId c = user_id) (call_sessions d) of
        None \<Rightarrow> (Inl (HTTPException 404 ''Call session not found''), d)
      | Some session \<Rightarrow>
          (let d1 = d\<lparr>call_sessions := update_one (\<lambda>c. c_id c = call_session_id)
                        (\<lambda>c. c\<lparr>c_status := ENDED, endedAt := Some (clock e 0)\<rparr>)
                        (call_sessions d)\<rparr>;
               d2 = d1\<lparr>queue_entries := update_one
                        (\<lambda>q. q_scheduleId q = c_scheduleId session \<and> q_patientId q = user_id)
                        (\<lambda>q. q\<lparr>q_status := DONE\<rparr>) (queue_entries d1)\<rparr>;
               d3 = log_audit (uuid4 e 0) (clock e 1) user_id ''CALL_ENDED''
                      (Some (c_scheduleId session)) (Some user_id) (Some call_session_id) [] d2
           in (Inr (Msg ''Call ended''), d3)))"

definition activate_call :: "string \<Rightarrow> string \<Rightarrow> db \<Rightarrow> outcome" where
  "activate_call call_session_id user_id d =
     (case find_one (\<lambda>c. c_id c = call_session_id) (call_sessions d) of
        None \<Rightarrow> (Inl (HTTPException 404 ''Call session not found''), d)
      | Some session \<Rightarrow>
          if user_id \<noteq> c_doctorId session \<and> user_id \<noteq> c_patientId session
            then (Inl (HTTPException 403 ''Not authorized''), d)
          else if c_status session \<noteq> CONFIRMED
            then (Inl (HTTPException 400
                   (''Cannot activate call in status: '' @ CallSessionStatus_str (c_status session))), d)
          else
            (Inr (Msg ''Call activated''),
             d\<lparr>call_sessions := update_one (\<lambda>c. c_id c = call_session_id)
                                   (\<lambda>c. c\<lparr>c_status := ACTIVE\<rparr>) (call_sessions d)\<rparr>))"

section \<open>Requests\<close>

text \<open>
  The routes that write to the coordinator's collections, each with the parameters of its
  path and body; \<open>handle\<close> is the router: it runs the handler of the request for the
  authenticated user.
\<close>

datatype request =
    CreateSchedule string string string
  | StartPractice string
  | EndPractice string
  | StartCall string string
  | SetDoctorPeerId string string
  | EndCallDoctor string
  | JoinQueue string
  | ToggleReady string bool
  | ConfirmCall string
  | DeclineCall string
  | SetPatientPeerId string string
  | EndCallPatient string
  | ActivateCall string

fun handle :: "request \<Rightarrow> string \<Rightarrow> env \<Rightarrow> db \<Rightarrow> outcome" where
  "handle (CreateSchedule dt st en) u e d = create_schedule dt st en u e d"
| "handle (StartPractice sid) u e d = start_practice sid u e d"
| "handle (EndPractice sid) u e d = end_practice sid u e d"
| "handle (StartCall sid pid) u e d = start_call sid pid u e d"
| "handle (SetDoctorPeerId cid peer) u e d = set_doctor_peer_id cid peer u d"
| "handle (EndCallDoctor cid) u e d = end_call_doctor cid u e d"
| "handle (JoinQueue sid) u e d = join_queue sid u e d"
| "handle (ToggleReady sid r) u e d = toggle_ready sid r u e d"
| "handle (ConfirmCall cid) u e d = confirm_call cid u e d"
| "handle (DeclineCall cid) u e d = decline_call cid u e d"
| "handle (SetPatientPeerId cid peer) u e d = set_patient_peer_id cid peer u d"
| "handle (EndCallPatient cid) u e d = end_call_patient cid u e d"
| "handle (ActivateCall cid) u e d = activate_call cid u d"

section \<open>Predicates on the database\<close>

text \<open>An invitation is stale for a request when the sweep of \<open>start_call\<close> selects it.\<close>

definition stale :: "env \<Rightarrow> call_session \<Rightarrow> bool" where
  "stale e c = (c_status c = INVITED \<and> createdAt c < clock e 0 - sixty_seconds)"

definition active_calls :: "string \<Rightarrow> call_session list \<Rightarrow> call_session list" where
  "active_calls schedule_id cs =
     filter (\<lambda>c. c_scheduleId c = schedule_id \<and> is_active (c_status c)) cs"

text \<open>
  The single active call rule: no schedule has two call sessions of status INVITED,
  CONFIRMED or ACTIVE. Only the schedules of the stored sessions need a look.
\<close>

definition single_active_call :: "db \<Rightarrow> bool" where
  "single_active_call d =
     list_all (\<lambda>c. length (active_calls (c_scheduleId c) (call_sessions d)) \<le> 1)
       (call_sessions d)"

definition unique_call_ids :: "db \<Rightarrow> bool" where
  "unique_call_ids d = distinct (map c_id (call_sessions d))"

text \<open>The entry of a patient in the queue of a schedule, as every handler looks it up.\<close>

definition queue_entry_of :: "string \<Rightarrow> string \<Rightarrow> db \<Rightarrow> queue_entry option" where
  "queue_entry_of schedule_id patient_id d =
     find_one (\<lambda>q. q_scheduleId q = schedule_id \<and> q_patientId q = patient_id) (queue_entries d)"

section \<open>Example databases\<close>

definition ex_env :: env where
  "ex_env = \<lparr>clock = (\<lambda>n. 100000000 + int n),
             uuid4 = (\<lambda>n. if n = 0 then ''u0'' else ''u1'')\<rparr>"

definition ex_schedule :: schedule where
  "ex_schedule = \<lparr>s_id = ''s1'', s_doctorId = ''d1'', s_date = ''2025-01-01'',
                  s_startTime = ''09:00'', s_endTime = ''12:00'', s_status = ONLINE\<rparr>"

definition ex_entry :: "string \<Rightarrow> string \<Rightarrow> int \<Rightarrow> QueueStatus \<Rightarrow> bool \<Rightarrow> queue_entry" where
  "ex_entry entry_id patient_id n st r =
     \<lparr>q_id = entry_id, q_scheduleId = ''s1'', q_patientId = patient_id, queueNumber = n,
      q_status = st, isReady = r, joinedAt = 0\<rparr>"

definition ex_call :: "CallSessionStatus \<Rightarrow> timestamp option \<Rightarrow> call_session" where
  "ex_call st ended =
     \<lparr>c_id = ''c1'', c_scheduleId = ''s1'', c_doctorId = ''d1'', c_patientId = ''p1'',
      c_status = st, createdAt = 0, confirmedAt = None, endedAt = ended,
      doctorPeerId = None, patientPeerId = None\<rparr>"

text \<open>A practice that is online, with an empty queue.\<close>

definition db_online :: db where
  "db_online = \<lparr>schedules = [ex_schedule], queue_entries = [], call_sessions = [],
                audit_logs = []\<rparr>"

text \<open>Patient p1 waits and has not signalled readiness.\<close>

definition db_waiting :: db where
  "db_waiting = \<lparr>schedules = [ex_schedule],
                 queue_entries = [ex_entry ''q1'' ''p1'' 1 WAITING False],
                 call_sessions = [], audit_logs = []\<rparr>"

text \<open>Patient p1 has signalled readiness; no call yet.\<close>

definition db_ready :: db where
  "db_ready = \<lparr>schedules = [ex_schedule],
               queue_entries = [ex_entry ''q1'' ''p1'' 1 READY True],
               call_sessions = [], audit_logs = []\<rparr>"

text \<open>
  Patient p1 is READY and holds an invitation created at instant 0, which is more than
  sixty seconds before the clock of \<open>ex_env\<close>.
\<close>

definition db_invited :: db where
  "db_invited = \<lparr>schedules = [ex_schedule],
                 queue_entries = [ex_entry ''q1'' ''p1'' 1 READY True],
                 call_sessions = [ex_call INVITED None], audit_logs = []\<rparr>"

text \<open>Patient p1 has declined the invitation and waits again.\<close>

definition db_declined :: db where
  "db_declined = \<lparr>schedules = [ex_schedule],
                  queue_entries = [ex_entry ''q1'' ''p1'' 1 WAITING False],
                  call_sessions = [ex_call DECLINED (Some 50)], audit_logs = []\<rparr>"

text \<open>The queue numbers of a schedule, in the order of admission.\<close>

definition queue_numbers :: "string \<Rightarrow> db \<Rightarrow> int list" where
  "queue_numbers schedule_id d =
     map queueNumber (filter (\<lambda>q. q_scheduleId q = schedule_id) (queue_entries d))"

text \<open>
  The relation of \<open>isReady\<close> to the status of a queue entry: as the data model words it,
  and as the handlers keep it (for the entries that are WAITING or READY).
\<close>

definition ready_matches_status :: "queue_entry \<Rightarrow> bool" where
  "ready_matches_status q = (isReady q \<longleftrightarrow> q_status q = READY)"

definition ready_consistent :: "queue_entry \<Rightarrow> bool" where
  "ready_consistent q =
     ((q_status q = READY \<longrightarrow> isReady q) \<and> (q_status q = WAITING \<longrightarrow> \<not> isReady q))"

text \<open>
  Two \<open>start_call\<close> requests for one schedule whose handlers interleave: the second request
  runs its sweep and checks while the first, its own checks passed, has not yet inserted
  its invitation; then both insert. The result is the database after both requests, when
  both pass their checks.
\<close>

definition start_call_race ::
  "string \<Rightarrow> string \<Rightarrow> string \<Rightarrow> string \<Rightarrow> env \<Rightarrow> env \<Rightarrow> db \<Rightarrow> db option" where
  "start_call_race schedule_id patient1 patient2 user_id e1 e2 d =
     (case start_call_checks schedule_id patient1 user_id e1 d of
        (Inl err, d1) \<Rightarrow> None
      | (Inr ok1, d1) \<Rightarrow>
          (case start_call_checks schedule_id patient2 user_id e2 d1 of
             (Inl err, d2) \<Rightarrow> None
           | (Inr ok2, d2) \<Rightarrow>
               Some (snd (start_call_create schedule_id patient2 user_id e2
                      (snd (start_call_create schedule_id patient1 user_id e1 d2))))))"

text \<open>Patients p1 and p2 are both READY; the second request draws other identifiers.\<close>

definition db_two_ready :: db where
  "db_two_ready = \<lparr>schedules = [ex_schedule],
                   queue_entries = [ex_entry ''q1'' ''p1'' 1 READY True,
                                    ex_entry ''q2'' ''p2'' 2 READY True],
                   call_sessions = [], audit_logs = []\<rparr>"

definition ex_env2 :: env where
  "ex_env2 = \<lparr>clock = (\<lambda>n. 100000010 + int n),
              uuid4 = (\<lambda>n. if n = 0 then ''v0'' else ''v1'')\<rparr>"

text \<open>Patient p1 holds the largest queue number that fits eight bytes.\<close>

definition db_last_number :: db where
  "db_last_number = \<lparr>schedules = [ex_schedule],
                     queue_entries = [ex_entry ''q1'' ''p1'' 9223372036854775807 WAITING False],
                     call_sessions = [], audit_logs = []\<rparr>"

text \<open>
  Two \<open>join_queue\<close> requests for one schedule whose handlers interleave in the same way:
  both read the largest queue number before either inserts its entry.
\<close>

definition join_queue_race ::
  "string \<Rightarrow> string \<Rightarrow> string \<Rightarrow> env \<Rightarrow> env \<Rightarrow> db \<Rightarrow> db option" where
  "join_queue_race schedule_id patient1 patient2 e1 e2 d =
     (case join_queue_checks schedule_id patient1 d of
        (Inl err, d1) \<Rightarrow> None
      | (Inr number1, d1) \<Rightarrow>
          (case join_queue_checks schedule_id patient2 d1 of
             (Inl err, d2) \<Rightarrow> None
           | (Inr number2, d2) \<Rightarrow>
               Some (snd (join_queue_create schedule_id patient2 e2 number2
                      (snd (join_queue_create schedule_id patient1 e1 number1 d2))))))"

section \<open>Properties\<close>

subsection \<open>Collection operations\<close>

lemma find_one_Nil [simp]: "find_one p [] = None"
  by (simp add: find_one_def)

lemma find_one_Cons [simp]:
  "find_one p (x # xs) = (if p x then Some x else find_one p xs)"
  by (simp add: find_one_def)

lemma find_one_None_iff: "find_one p xs = None \<longleftrightarrow> (\<forall>x\<in>set xs. \<not> p x)"
  by (induction xs) auto

lemma find_one_SomeD: "find_one p xs = Some x \<Longrightarrow> x \<in> set xs \<and> p x"
  by (induction xs) (auto split: if_splits)

lemma find_one_update_many_None:
  assumes "\<forall>x\<in>set xs. P x \<longrightarrow> p x" and "\<forall>x. \<not> P (f x)"
  shows "find_one P (update_many p f xs) = None"
  using assms by (auto simp: find_one_None_iff update_many_def)

lemma sweep_leaves_no_active:
  assumes "\<forall>c\<in>set cs. c_scheduleId c = sid \<and> is_active (c_status c) \<longrightarrow> stale e c"
  shows "find_one (\<lambda>c. c_scheduleId c = sid \<and> is_active (c_status c))
           (update_many (\<lambda>c. c_scheduleId c = sid \<and> c_status c = INVITED
                              \<and> createdAt c < clock e 0 - sixty_seconds)
              (\<lambda>c. c\<lparr>c_status := EXPIRED, endedAt := Some (clock e 1)\<rparr>) cs) = None"
proof (rule find_one_update_many_None)
  show "\<forall>c\<in>set cs. c_scheduleId c = sid \<and> is_active (c_status c) \<longrightarrow>
          c_scheduleId c = sid \<and> c_status c = INVITED \<and> createdAt c < clock e 0 - sixty_seconds"
    using assms by (simp add: stale_def)
  show "\<forall>c. \<not> (c_scheduleId (c\<lparr>c_status := EXPIRED, endedAt := Some (clock e 1)\<rparr>) = sid
               \<and> is_active (c_status (c\<lparr>c_status := EXPIRED, endedAt := Some (clock e 1)\<rparr>)))"
    by (simp add: is_active_def)
qed

subsection \<open>Inviting a patient who is not ready\<close>

lemma start_call_checks_db_online:
  "start_call_checks ''s1'' ''p1'' ''d1'' ex_env db_online =
     (Inl (HTTPException 404 ''Patient not in queue''), db_online)"
  by (simp add: start_call_checks_def db_online_def ex_schedule_def update_many_def)

lemma start_call_checks_db_waiting:
  "start_call_checks ''s1'' ''p1'' ''d1'' ex_env db_waiting =
     (Inl (HTTPException 400 ''Patient is not ready''), db_waiting)"
  by (simp add: start_call_checks_def db_waiting_def ex_schedule_def ex_entry_def update_many_def)

text \<open>
  C8, as stated, fails: for a patient with no queue entry \<open>start_call\<close> raises 404
  "Patient not in queue", which is not the 400 "Patient is not ready" of an entry that is
  not READY.
\<close>

theorem start_call_not_in_queue_counterexample:
  "fst (start_call ''s1'' ''p1'' ''d1'' ex_env db_online)
     = Inl (HTTPException 404 ''Patient not in queue'')
   \<and> fst (start_call ''s1'' ''p1'' ''d1'' ex_env db_online)
     \<noteq> Inl (HTTPException 400 ''Patient is not ready'')"
  by (simp add: start_call_def start_call_checks_db_online)

text \<open>
  C8, amended: when the schedule of the doctor is ONLINE and no call blocks the invitation
  (every active call of the schedule is a stale invitation), \<open>start_call\<close> raises 400
  "Patient is not ready" for a patient whose queue entry has a status other than READY, and
  404 "Patient not in queue" for a patient with no queue entry.
\<close>

theorem start_call_patient_errors:
  assumes "find_one (\<lambda>s. s_id s = sid \<and> s_doctorId s = u) (schedules d) = Some sched"
    and "s_status sched = ONLINE"
    and "\<forall>c\<in>set (call_sessions d). c_scheduleId c = sid \<and> is_active (c_status c) \<longrightarrow> stale e c"
  shows "(queue_entry_of sid pid d = None
            \<longrightarrow> fst (start_call sid pid u e d) = Inl (HTTPException 404 ''Patient not in queue''))
       \<and> (\<forall>entry. queue_entry_of sid pid d = Some entry \<and> q_status entry \<noteq> READY
            \<longrightarrow> fst (start_call sid pid u e d) = Inl (HTTPException 400 ''Patient is not ready''))"
  using assms(1,2) sweep_leaves_no_active[OF assms(3)]
  by (simp add: start_call_def start_call_checks_def Let_def queue_entry_of_def)

theorem start_call_patient_errors_witness:
  "fst (start_call ''s1'' ''p1'' ''d1'' ex_env db_online)
     = Inl (HTTPException 404 ''Patient not in queue'')
   \<and> fst (start_call ''s1'' ''p1'' ''d1'' ex_env db_waiting)
     = Inl (HTTPException 400 ''Patient is not ready'')"
proof -
  have sched1: "find_one (\<lambda>s. s_id s = ''s1'' \<and> s_doctorId s = ''d1'') (schedules db_online)
                  = Some ex_schedule"
    by (simp add: db_online_def ex_schedule_def)
  have sched2: "find_one (\<lambda>s. s_id s = ''s1'' \<and> s_doctorId s = ''d1'') (schedules db_waiting)
                  = Some ex_schedule"
    by (simp add: db_waiting_def ex_schedule_def)
  have online: "s_status ex_schedule = ONLINE"
    by (simp add: ex_schedule_def)
  have none1: "\<forall>c\<in>set (call_sessions db_online).
                 c_scheduleId c = ''s1'' \<and> is_active (c_status c) \<longrightarrow> stale ex_env c"
    by (simp add: db_online_def)
  have none2: "\<forall>c\<in>set (call_sessions db_waiting).
                 c_scheduleId c = ''s1'' \<and> is_active (c_status c) \<longrightarrow> stale ex_env c"
    by (simp add: db_waiting_def)
  have q1: "queue_entry_of ''s1'' ''p1'' db_online = None"
    by (simp add: queue_entry_of_def db_online_def)
  have q2: "queue_entry_of ''s1'' ''p1'' db_waiting = Some (ex_entry ''q1'' ''p1'' 1 WAITING False)"
    by (simp add: queue_entry_of_def db_waiting_def ex_entry_def)
  have st: "q_status (ex_entry ''q1'' ''p1'' 1 WAITING False) \<noteq> READY"
    by (simp add: ex_entry_def)
  from start_call_patient_errors[OF sched1 online none1, of "''p1''"] q1
  have a: "fst (start_call ''s1'' ''p1'' ''d1'' ex_env db_online)
             = Inl (HTTPException 404 ''Patient not in queue'')"
    by simp
  from start_call_patient_errors[OF sched2 online none2, of "''p1''"] q2 st
  have b: "fst (start_call ''s1'' ''p1'' ''d1'' ex_env db_waiting)
             = Inl (HTTPException 400 ''Patient is not ready'')"
    by simp
  from a b show ?thesis by (rule conjI)
qed

subsection \<open>Looking up and updating one document\<close>

lemma find_one_update_one_same:
  "find_one p xs = Some x \<Longrightarrow> p (f x) \<Longrightarrow> find_one p (update_one p f xs) = Some (f x)"
  by (induction xs) (auto split: if_splits)

lemma find_one_update_one_key:
  assumes "distinct (map k xs)" and "find_one (\<lambda>x. k x = i \<and> Q x) xs = Some s"
    and "k (f s) = i" and "Q (f s)"
  shows "find_one (\<lambda>x. k x = i \<and> Q x) (update_one (\<lambda>x. k x = i) f xs) = Some (f s)"
  using assms
proof (induction xs)
  case Nil
  then show ?case by simp
next
  case (Cons x xs)
  show ?case
  proof (cases "k x = i")
    case True
    have "s = x"
    proof (cases "Q x")
      case True
      with \<open>k x = i\<close> Cons.prems(2) show ?thesis by simp
    next
      case False
      with Cons.prems(2) have "find_one (\<lambda>x. k x = i \<and> Q x) xs = Some s" by simp
      then have "s \<in> set xs" "k s = i"
        using find_one_SomeD[of "\<lambda>x. k x = i \<and> Q x" xs s] by auto
      with True Cons.prems(1) have False by (auto simp: image_iff)
      then show ?thesis ..
    qed
    with True Cons.prems show ?thesis by simp
  next
    case False
    with Cons show ?thesis by simp
  qed
qed

subsection \<open>Signalling readiness and taking it back\<close>

lemma toggle_ready_ok:
  assumes "queue_entry_of sid u d = Some entry"
    and "q_status entry \<noteq> DONE" and "q_status entry \<noteq> IN_CALL"
  shows "fst (toggle_ready sid r u e d)
           = Inr (MsgReady ''Ready status updated'' r (if r then READY else WAITING))"
    and "queue_entry_of sid u (snd (toggle_ready sid r u e d))
           = Some (entry\<lparr>q_status := (if r then READY else WAITING), isReady := r\<rparr>)"
proof -
  have p: "q_scheduleId entry = sid \<and> q_patientId entry = u"
    using find_one_SomeD[OF assms(1)[unfolded queue_entry_of_def]] by simp
  show "fst (toggle_ready sid r u e d)
           = Inr (MsgReady ''Ready status updated'' r (if r then READY else WAITING))"
    using assms by (simp add: toggle_ready_def queue_entry_of_def Let_def)
  show "queue_entry_of sid u (snd (toggle_ready sid r u e d))
           = Some (entry\<lparr>q_status := (if r then READY else WAITING), isReady := r\<rparr>)"
    using assms p
    by (simp add: toggle_ready_def queue_entry_of_def Let_def log_audit_def
                  find_one_update_one_same)
qed

text \<open>
  C9: for a queue entry whose status is WAITING or READY, \<open>toggle_ready\<close> with
  \<open>isReady = true\<close> followed by \<open>toggle_ready\<close> with \<open>isReady = false\<close> both succeed and leave
  the entry with status WAITING and \<open>isReady\<close> false, its other fields as they were.
\<close>

theorem toggle_ready_round_trip:
  assumes "queue_entry_of sid u d = Some entry"
    and "q_status entry = WAITING \<or> q_status entry = READY"
  shows "fst (toggle_ready sid True u e1 d) = Inr (MsgReady ''Ready status updated'' True READY)
       \<and> fst (toggle_ready sid False u e2 (snd (toggle_ready sid True u e1 d)))
           = Inr (MsgReady ''Ready status updated'' False WAITING)
       \<and> queue_entry_of sid u
           (snd (toggle_ready sid False u e2 (snd (toggle_ready sid True u e1 d))))
           = Some (entry\<lparr>q_status := WAITING, isReady := False\<rparr>)"
proof -
  from assms(2) have ne: "q_status entry \<noteq> DONE" "q_status entry \<noteq> IN_CALL" by auto
  let ?d1 = "snd (toggle_ready sid True u e1 d)"
  let ?entry1 = "entry\<lparr>q_status := READY, isReady := True\<rparr>"
  have r1: "fst (toggle_ready sid True u e1 d) = Inr (MsgReady ''Ready status updated'' True READY)"
    using toggle_ready_ok(1)[OF assms(1) ne, of True e1] by simp
  have q1: "queue_entry_of sid u ?d1 = Some ?entry1"
    using toggle_ready_ok(2)[OF assms(1) ne, of True e1] by simp
  have ne1: "q_status ?entry1 \<noteq> DONE" "q_status ?entry1 \<noteq> IN_CALL" by simp_all
  have r2: "fst (toggle_ready sid False u e2 ?d1)
              = Inr (MsgReady ''Ready status updated'' False WAITING)"
    using toggle_ready_ok(1)[OF q1 ne1, of False e2] by simp
  have q2: "queue_entry_of sid u (snd (toggle_ready sid False u e2 ?d1))
              = Some (entry\<lparr>q_status := WAITING, isReady := False\<rparr>)"
    using toggle_ready_ok(2)[OF q1 ne1, of False e2] by simp
  from r1 r2 q2 show ?thesis by simp
qed

theorem toggle_ready_round_trip_witness:
  "queue_entry_of ''s1'' ''p1'' db_ready = Some (ex_entry ''q1'' ''p1'' 1 READY True)
   \<and> queue_entry_of ''s1'' ''p1''
       (snd (toggle_ready ''s1'' False ''p1'' ex_env
          (snd (toggle_ready ''s1'' True ''p1'' ex_env db_ready))))
       = Some (ex_entry ''q1'' ''p1'' 1 WAITING False)"
proof -
  have q: "queue_entry_of ''s1'' ''p1'' db_ready = Some (ex_entry ''q1'' ''p1'' 1 READY True)"
    by (simp add: queue_entry_of_def db_ready_def ex_entry_def)
  have st: "q_status (ex_entry ''q1'' ''p1'' 1 READY True) = WAITING
            \<or> q_status (ex_entry ''q1'' ''p1'' 1 READY True) = READY"
    by (simp add: ex_entry_def)
  have upd: "(ex_entry ''q1'' ''p1'' 1 READY True)\<lparr>q_status := WAITING, isReady := False\<rparr>
               = ex_entry ''q1'' ''p1'' 1 WAITING False"
    by (simp add: ex_entry_def)
  from toggle_ready_round_trip[OF q st, of ex_env ex_env] q upd show ?thesis by simp
qed

subsection \<open>Confirming an invitation\<close>

lemma confirm_call_ok:
  assumes "find_one (\<lambda>c. c_id c = cid \<and> c_patientId c = u) (call_sessions d) = Some session"
    and "c_status session = INVITED"
  shows "fst (confirm_call cid u e d) = Inr (MsgCall ''Call confirmed'' cid)"
    and "unique_call_ids d \<Longrightarrow>
         find_one (\<lambda>c. c_id c = cid \<and> c_patientId c = u)
           (call_sessions (snd (confirm_call cid u e d)))
         = Some (session\<lparr>c_status := CONFIRMED, confirmedAt := Some (clock e 0)\<rparr>)"
    and "queue_entry_of (c_scheduleId session) u d = Some entry \<Longrightarrow>
         queue_entry_of (c_scheduleId session) u (snd (confirm_call cid u e d))
         = Some (entry\<lparr>q_status := IN_CALL\<rparr>)"
proof -
  have p: "c_id session = cid \<and> c_patientId session = u"
    using find_one_SomeD[OF assms(1)] by simp
  show "fst (confirm_call cid u e d) = Inr (MsgCall ''Call confirmed'' cid)"
    using assms by (simp add: confirm_call_def Let_def)
  show "find_one (\<lambda>c. c_id c = cid \<and> c_patientId c = u)
           (call_sessions (snd (confirm_call cid u e d)))
         = Some (session\<lparr>c_status := CONFIRMED, confirmedAt := Some (clock e 0)\<rparr>)"
    if uniq: "unique_call_ids d"
  proof -
    have "find_one (\<lambda>c. c_id c = cid \<and> c_patientId c = u)
            (update_one (\<lambda>c. c_id c = cid)
               (\<lambda>c. c\<lparr>c_status := CONFIRMED, confirmedAt := Some (clock e 0)\<rparr>)
               (call_sessions d))
          = Some (session\<lparr>c_status := CONFIRMED, confirmedAt := Some (clock e 0)\<rparr>)"
      using uniq assms(1) p
      by (intro find_one_update_one_key) (simp_all add: unique_call_ids_def)
    then show ?thesis
      using assms by (simp add: confirm_call_def Let_def log_audit_def)
  qed
  assume q: "queue_entry_of (c_scheduleId session) u d = Some entry"
  have pq: "q_scheduleId entry = c_scheduleId session \<and> q_patientId entry = u"
    using find_one_SomeD[OF q[unfolded queue_entry_of_def]] by simp
  show "queue_entry_of (c_scheduleId session) u (snd (confirm_call cid u e d))
         = Some (entry\<lparr>q_status := IN_CALL\<rparr>)"
    using assms q pq
    by (simp add: confirm_call_def Let_def log_audit_def queue_entry_of_def
                  find_one_update_one_same)
qed

lemma confirm_call_rejected:
  assumes "find_one (\<lambda>c. c_id c = cid \<and> c_patientId c = u) (call_sessions d) = Some session"
    and "c_status session \<noteq> INVITED"
  shows "confirm_call cid u e d =
           (Inl (HTTPException 400
              (''Cannot confirm call in status: '' @ CallSessionStatus_str (c_status session))), d)"
  using assms by (simp add: confirm_call_def)

lemma db_invited_unique: "unique_call_ids db_invited"
  by (simp add: unique_call_ids_def db_invited_def)

lemma db_invited_session:
  "find_one (\<lambda>c. c_id c = ''c1'' \<and> c_patientId c = ''p1'') (call_sessions db_invited)
     = Some (ex_call INVITED None)"
  by (simp add: db_invited_def ex_call_def)

lemma db_invited_entry:
  "queue_entry_of (c_scheduleId (ex_call INVITED None)) ''p1'' db_invited
     = Some (ex_entry ''q1'' ''p1'' 1 READY True)"
  by (simp add: queue_entry_of_def db_invited_def ex_call_def ex_entry_def)

lemma db_declined_session:
  "find_one (\<lambda>c. c_id c = ''c1'' \<and> c_patientId c = ''p1'') (call_sessions db_declined)
     = Some (ex_call DECLINED (Some 50))"
  by (simp add: db_declined_def ex_call_def)

text \<open>
  C6: for a call session of the patient, \<open>confirm_call\<close> succeeds exactly when the status
  is INVITED. Then the queue entry of the patient becomes IN_CALL and the session, ids being
  unique, is found CONFIRMED with \<open>confirmedAt\<close> set. For every other status the request is
  rejected with 400 and a detail that ends with the current status, and the database is
  left as it was.
\<close>

theorem confirm_call_only_from_invited:
  assumes "find_one (\<lambda>c. c_id c = cid \<and> c_patientId c = u) (call_sessions d) = Some session"
  shows "(c_status session = INVITED \<longrightarrow>
            fst (confirm_call cid u e d) = Inr (MsgCall ''Call confirmed'' cid)
          \<and> (unique_call_ids d \<longrightarrow>
               find_one (\<lambda>c. c_id c = cid \<and> c_patientId c = u)
                 (call_sessions (snd (confirm_call cid u e d)))
               = Some (session\<lparr>c_status := CONFIRMED, confirmedAt := Some (clock e 0)\<rparr>))
          \<and> (\<forall>entry. queue_entry_of (c_scheduleId session) u d = Some entry \<longrightarrow>
                queue_entry_of (c_scheduleId session) u (snd (confirm_call cid u e d))
                = Some (entry\<lparr>q_status := IN_CALL\<rparr>)))
       \<and> (c_status session \<noteq> INVITED \<longrightarrow>
            confirm_call cid u e d =
              (Inl (HTTPException 400
                 (''Cannot confirm call in status: '' @ CallSessionStatus_str (c_status session))),
               d))"
  using confirm_call_ok[OF assms] confirm_call_rejected[OF assms] by simp

theorem confirm_call_only_from_invited_witness:
  "fst (confirm_call ''c1'' ''p1'' ex_env db_invited) = Inr (MsgCall ''Call confirmed'' ''c1'')
   \<and> queue_entry_of ''s1'' ''p1'' (snd (confirm_call ''c1'' ''p1'' ex_env db_invited))
       = Some (ex_entry ''q1'' ''p1'' 1 IN_CALL True)
   \<and> confirm_call ''c1'' ''p1'' ex_env db_declined
       = (Inl (HTTPException 400 ''Cannot confirm call in status: DECLINED''), db_declined)"
proof -
  have st1: "c_status (ex_call INVITED None) = INVITED"
    by (simp add: ex_call_def)
  have st2: "c_status (ex_call DECLINED (Some 50)) \<noteq> INVITED"
    by (simp add: ex_call_def)
  have sid: "c_scheduleId (ex_call INVITED None) = ''s1''"
    by (simp add: ex_call_def)
  have upd: "(ex_entry ''q1'' ''p1'' 1 READY True)\<lparr>q_status := IN_CALL\<rparr>
               = ex_entry ''q1'' ''p1'' 1 IN_CALL True"
    by (simp add: ex_entry_def)
  have str: "CallSessionStatus_str (c_status (ex_call DECLINED (Some 50))) = ''DECLINED''"
    by (simp add: ex_call_def)
  from confirm_call_only_from_invited[OF db_invited_session, of ex_env]
       st1 db_invited_entry
  have a: "fst (confirm_call ''c1'' ''p1'' ex_env db_invited) = Inr (MsgCall ''Call confirmed'' ''c1'')"
    and b: "queue_entry_of ''s1'' ''p1'' (snd (confirm_call ''c1'' ''p1'' ex_env db_invited))
              = Some (ex_entry ''q1'' ''p1'' 1 IN_CALL True)"
    by (simp_all add: sid upd)
  from confirm_call_only_from_invited[OF db_declined_session, of ex_env] st2
  have c: "confirm_call ''c1'' ''p1'' ex_env db_declined
             = (Inl (HTTPException 400 ''Cannot confirm call in status: DECLINED''), db_declined)"
    by (simp add: str)
  from a b c show ?thesis by simp
qed

text \<open>
  C10: \<open>confirm_call\<close> reads neither \<open>createdAt\<close> nor compares any clock reading: for a
  session of the patient in status INVITED it succeeds and sets CONFIRMED whatever the age
  of the invitation; the witness confirms an invitation that is stale.
\<close>

theorem confirm_call_ignores_age:
  assumes "find_one (\<lambda>c. c_id c = cid \<and> c_patientId c = u) (call_sessions d) = Some session"
    and "c_status session = INVITED"
    and "createdAt session = clock e 0 - age"
  shows "fst (confirm_call cid u e d) = Inr (MsgCall ''Call confirmed'' cid)
       \<and> (unique_call_ids d \<longrightarrow>
            find_one (\<lambda>c. c_id c = cid \<and> c_patientId c = u)
              (call_sessions (snd (confirm_call cid u e d)))
            = Some (session\<lparr>c_status := CONFIRMED, confirmedAt := Some (clock e 0)\<rparr>))"
  using confirm_call_ok(1,2)[OF assms(1,2)] by simp

theorem confirm_call_ignores_age_witness:
  "sixty_seconds < 100000000
   \<and> stale ex_env (ex_call INVITED None)
   \<and> fst (confirm_call ''c1'' ''p1'' ex_env db_invited) = Inr (MsgCall ''Call confirmed'' ''c1'')
   \<and> find_one (\<lambda>c. c_id c = ''c1'' \<and> c_patientId c = ''p1'')
        (call_sessions (snd (confirm_call ''c1'' ''p1'' ex_env db_invited)))
      = Some ((ex_call INVITED None)\<lparr>c_status := CONFIRMED, confirmedAt := Some 100000000\<rparr>)"
proof -
  have st: "c_status (ex_call INVITED None) = INVITED"
    by (simp add: ex_call_def)
  have age: "createdAt (ex_call INVITED None) = clock ex_env 0 - 100000000"
    by (simp add: ex_call_def ex_env_def)
  have old: "sixty_seconds < 100000000"
    by (simp add: sixty_seconds_def)
  have stl: "stale ex_env (ex_call INVITED None)"
    by (simp add: stale_def ex_call_def ex_env_def sixty_seconds_def)
  have clk: "clock ex_env 0 = 100000000"
    by (simp add: ex_env_def)
  from confirm_call_ignores_age[OF db_invited_session st age] db_invited_unique old stl
  show ?thesis by (simp add: clk)
qed

subsection \<open>Ending a call\<close>

lemma end_call_doctor_ok:
  assumes "find_one (\<lambda>c. c_id c = cid \<and> c_doctorId c = u) (call_sessions d) = Some session"
  shows "fst (end_call_doctor cid u e d) = Inr (Msg ''Call ended'')"
    and "unique_call_ids d \<Longrightarrow>
         find_one (\<lambda>c. c_id c = cid \<and> c_doctorId c = u)
           (call_sessions (snd (end_call_doctor cid u e d)))
         = Some (session\<lparr>c_status := ENDED, endedAt := Some (clock e 0)\<rparr>)"
    and "queue_entry_of (c_scheduleId session) (c_patientId session) d = Some entry \<Longrightarrow>
         queue_entry_of (c_scheduleId session) (c_patientId session)
           (snd (end_call_doctor cid u e d))
         = Some (entry\<lparr>q_status := DONE\<rparr>)"
proof -
  have p: "c_id session = cid \<and> c_doctorId session = u"
    using find_one_SomeD[OF assms(1)] by simp
  show "fst (end_call_doctor cid u e d) = Inr (Msg ''Call ended'')"
    using assms by (simp add: end_call_doctor_def Let_def)
  show "find_one (\<lambda>c. c_id c = cid \<and> c_doctorId c = u)
           (call_sessions (snd (end_call_doctor cid u e d)))
         = Some (session\<lparr>c_status := ENDED, endedAt := Some (clock e 0)\<rparr>)"
    if uniq: "unique_call_ids d"
  proof -
    have "find_one (\<lambda>c. c_id c = cid \<and> c_doctorId c = u)
            (update_one (\<lambda>c. c_id c = cid)
               (\<lambda>c. c\<lparr>c_status := ENDED, endedAt := Some (clock e 0)\<rparr>) (call_sessions d))
          = Some (session\<lparr>c_status := ENDED, endedAt := Some (clock e 0)\<rparr>)"
      using uniq assms(1) p
      by (intro find_one_update_one_key) (simp_all add: unique_call_ids_def)
    then show ?thesis
      using assms by (simp add: end_call_doctor_def Let_def log_audit_def)
  qed
  assume q: "queue_entry_of (c_scheduleId session) (c_patientId session) d = Some entry"
  have pq: "q_scheduleId entry = c_scheduleId session \<and> q_patientId entry = c_patientId session"
    using find_one_SomeD[OF q[unfolded queue_entry_of_def]] by simp
  show "queue_entry_of (c_scheduleId session) (c_patientId session)
           (snd (end_call_doctor cid u e d))
         = Some (entry\<lparr>q_status := DONE\<rparr>)"
    using assms q pq
    by (simp add: end_call_doctor_def Let_def log_audit_def queue_entry_of_def
                  find_one_update_one_same)
qed

lemma end_call_patient_ok:
  assumes "find_one (\<lambda>c. c_id c = cid \<and> c_patientId c = u) (call_sessions d) = Some session"
  shows "fst (end_call_patient cid u e d) = Inr (Msg ''Call ended'')"
    and "unique_call_ids d \<Longrightarrow>
         find_one (\<lambda>c. c_id c = cid \<and> c_patientId c = u)
           (call_sessions (snd (end_call_patient cid u e d)))
         = Some (session\<lparr>c_status := ENDED, endedAt := Some (clock e 0)\<rparr>)"
    and "queue_entry_of (c_scheduleId session) u d = Some entry \<Longrightarrow>
         queue_entry_of (c_scheduleId session) u (snd (end_call_patient cid u e d))
         = Some (entry\<lparr>q_status := DONE\<rparr>)"
proof -
  have p: "c_id session = cid \<and> c_patientId session = u"
    using find_one_SomeD[OF assms(1)] by simp
  show "fst (end_call_patient cid u e d) = Inr (Msg ''Call ended'')"
    using assms by (simp add: end_call_patient_def Let_def)
  show "find_one (\<lambda>c. c_id c = cid \<and> c_patientId c = u)
           (call_sessions (snd (end_call_patient cid u e d)))
         = Some (session\<lparr>c_status := ENDED, endedAt := Some (clock e 0)\<rparr>)"
    if uniq: "unique_call_ids d"
  proof -
    have "find_one (\<lambda>c. c_id c = cid \<and> c_patientId c = u)
            (update_one (\<lambda>c. c_id c = cid)
               (\<lambda>c. c\<lparr>c_status := ENDED, endedAt := Some (clock e 0)\<rparr>) (call_sessions d))
          = Some (session\<lparr>c_status := ENDED, endedAt := Some (clock e 0)\<rparr>)"
      using uniq assms(1) p
      by (intro find_one_update_one_key) (simp_all add: unique_call_ids_def)
    then show ?thesis
      using assms by (simp add: end_call_patient_def Let_def log_audit_def)
  qed
  assume q: "queue_entry_of (c_scheduleId session) u d = Some entry"
  have pq: "q_scheduleId entry = c_scheduleId session \<and> q_patientId entry = u"
    using find_one_SomeD[OF q[unfolded queue_entry_of_def]] by simp
  show "queue_entry_of (c_scheduleId session) u (snd (end_call_patient cid u e d))
         = Some (entry\<lparr>q_status := DONE\<rparr>)"
    using assms q pq
    by (simp add: end_call_patient_def Let_def log_audit_def queue_entry_of_def
                  find_one_update_one_same)
qed

text \<open>
  The part of C5 that the handlers keep: for a session of the caller whose status is
  INVITED, CONFIRMED or ACTIVE, \<open>end_call_doctor\<close> and \<open>end_call_patient\<close> succeed and set
  the queue entry of the session's patient to DONE; the session, ids being unique, is found
  ENDED with \<open>endedAt\<close> set.
\<close>

theorem end_call_from_active_status:
  "(find_one (\<lambda>c. c_id c = cid \<and> c_doctorId c = u) (call_sessions d) = Some session
      \<and> is_active (c_status session) \<longrightarrow>
            fst (end_call_doctor cid u e d) = Inr (Msg ''Call ended'')
          \<and> (unique_call_ids d \<longrightarrow>
               find_one (\<lambda>c. c_id c = cid \<and> c_doctorId c = u)
                 (call_sessions (snd (end_call_doctor cid u e d)))
               = Some (session\<lparr>c_status := ENDED, endedAt := Some (clock e 0)\<rparr>))
          \<and> (\<forall>entry. queue_entry_of (c_scheduleId session) (c_patientId session) d = Some entry
                \<longrightarrow> queue_entry_of (c_scheduleId session) (c_patientId session)
                      (snd (end_call_doctor cid u e d))
                    = Some (entry\<lparr>q_status := DONE\<rparr>)))
       \<and> (find_one (\<lambda>c. c_id c = cid \<and> c_patientId c = u) (call_sessions d) = Some session
            \<and> is_active (c_status session) \<longrightarrow>
            fst (end_call_patient cid u e d) = Inr (Msg ''Call ended'')
          \<and> (unique_call_ids d \<longrightarrow>
               find_one (\<lambda>c. c_id c = cid \<and> c_patientId c = u)
                 (call_sessions (snd (end_call_patient cid u e d)))
               = Some (session\<lparr>c_status := ENDED, endedAt := Some (clock e 0)\<rparr>))
          \<and> (\<forall>entry. queue_entry_of (c_scheduleId session) u d = Some entry
                \<longrightarrow> queue_entry_of (c_scheduleId session) u (snd (end_call_patient cid u e d))
                    = Some (entry\<lparr>q_status := DONE\<rparr>)))"
  using end_call_doctor_ok[where cid = cid and u = u and d = d and session = session and e = e]
    end_call_patient_ok[where cid = cid and u = u and d = d and session = session and e = e]
  by simp

theorem end_call_from_active_status_witness:
  "is_active (c_status (ex_call INVITED None))
   \<and> fst (end_call_patient ''c1'' ''p1'' ex_env db_invited) = Inr (Msg ''Call ended'')
   \<and> find_one (\<lambda>c. c_id c = ''c1'' \<and> c_patientId c = ''p1'')
        (call_sessions (snd (end_call_patient ''c1'' ''p1'' ex_env db_invited)))
      = Some (ex_call ENDED (Some 100000000))
   \<and> queue_entry_of ''s1'' ''p1'' (snd (end_call_patient ''c1'' ''p1'' ex_env db_invited))
      = Some (ex_entry ''q1'' ''p1'' 1 DONE True)"
proof -
  have st: "is_active (c_status (ex_call INVITED None))"
    by (simp add: ex_call_def is_active_def)
  have sid: "c_scheduleId (ex_call INVITED None) = ''s1''"
    by (simp add: ex_call_def)
  have upd: "(ex_call INVITED None)\<lparr>c_status := ENDED, endedAt := Some (clock ex_env 0)\<rparr>
               = ex_call ENDED (Some 100000000)"
    by (simp add: ex_call_def ex_env_def)
  have upq: "(ex_entry ''q1'' ''p1'' 1 READY True)\<lparr>q_status := DONE\<rparr>
               = ex_entry ''q1'' ''p1'' 1 DONE True"
    by (simp add: ex_entry_def)
  from end_call_from_active_status[of "''c1''" "''p1''" db_invited
         "ex_call INVITED None" ex_env]
       db_invited_session db_invited_unique db_invited_entry st
  show ?thesis by (simp add: sid upd upq)
qed

lemma end_call_doctor_db_declined_entries:
  "queue_entries (snd (end_call_doctor ''c1'' ''d1'' ex_env db_declined))
     = [ex_entry ''q1'' ''p1'' 1 DONE False]"
  by (simp add: end_call_doctor_def db_declined_def ex_call_def ex_entry_def Let_def
                log_audit_def)

text \<open>
  C5 asks that End be refused on a session in a terminal status and leave it as it is.
  The two End handlers check no status, unlike \<open>confirm_call\<close>, \<open>decline_call\<close> and
  \<open>activate_call\<close>, which raise 400 from a status they do not accept, and unlike
  \<open>end_practice\<close>, which ends the calls of the active set only. On a session that is
  DECLINED \<open>end_call_doctor\<close> succeeds, overwrites the status with ENDED and sets the queue
  entry of the patient, who is WAITING, to DONE; \<open>toggle_ready\<close> then refuses the patient.
\<close>

theorem end_call_doctor_on_declined:
  "map c_status (call_sessions db_declined) = [DECLINED]
   \<and> map q_status (queue_entries db_declined) = [WAITING]
   \<and> fst (end_call_doctor ''c1'' ''d1'' ex_env db_declined) = Inr (Msg ''Call ended'')
   \<and> map c_status (call_sessions (snd (end_call_doctor ''c1'' ''d1'' ex_env db_declined)))
       = [ENDED]
   \<and> map q_status (queue_entries (snd (end_call_doctor ''c1'' ''d1'' ex_env db_declined)))
       = [DONE]
   \<and> fst (toggle_ready ''s1'' True ''p1'' ex_env2
            (snd (end_call_doctor ''c1'' ''d1'' ex_env db_declined)))
       = Inl (HTTPException 400 ''Consultation already completed'')"
proof -
  have a: "map c_status (call_sessions db_declined) = [DECLINED]"
    by (simp add: db_declined_def ex_call_def)
  have b: "map q_status (queue_entries db_declined) = [WAITING]"
    by (simp add: db_declined_def ex_entry_def)
  have c: "fst (end_call_doctor ''c1'' ''d1'' ex_env db_declined) = Inr (Msg ''Call ended'')"
    by (simp add: end_call_doctor_def db_declined_def ex_call_def Let_def)
  have d: "map c_status (call_sessions (snd (end_call_doctor ''c1'' ''d1'' ex_env db_declined)))
             = [ENDED]"
    by (simp add: end_call_doctor_def db_declined_def ex_call_def Let_def log_audit_def)
  have e: "map q_status (queue_entries (snd (end_call_doctor ''c1'' ''d1'' ex_env db_declined)))
             = [DONE]"
    by (simp add: end_call_doctor_db_declined_entries ex_entry_def)
  have f: "fst (toggle_ready ''s1'' True ''p1'' ex_env2
                 (snd (end_call_doctor ''c1'' ''d1'' ex_env db_declined)))
             = Inl (HTTPException 400 ''Consultation already completed'')"
    by (simp add: toggle_ready_def end_call_doctor_db_declined_entries ex_entry_def)
  from a b c d e f show ?thesis by simp
qed

subsection \<open>Joining the queue\<close>

lemma find_one_sorted_desc_None_iff:
  "find_one_sorted_desc p k xs = None \<longleftrightarrow> (\<forall>x\<in>set xs. \<not> p x)"
  by (induction xs) (auto split: option.splits)

lemma find_one_sorted_desc_Some:
  "find_one_sorted_desc p k xs = Some y \<Longrightarrow>
     y \<in> set xs \<and> p y \<and> (\<forall>x\<in>set xs. p x \<longrightarrow> k x \<le> k y)"
proof (induction xs arbitrary: y)
  case Nil
  then show ?case by simp
next
  case (Cons x xs)
  show ?case
  proof (cases "find_one_sorted_desc p k xs")
    case None
    then have "\<forall>x\<in>set xs. \<not> p x" by (simp add: find_one_sorted_desc_None_iff)
    with None Cons.prems show ?thesis by (auto split: if_splits)
  next
    case (Some z)
    from Cons.IH[OF Some] have z: "z \<in> set xs" "p z" "\<forall>x\<in>set xs. p x \<longrightarrow> k x \<le> k z"
      by auto
    show ?thesis
    proof (cases "p x \<and> k z \<le> k x")
      case True
      with Some Cons.prems have "y = x" by simp
      with True z show ?thesis by fastforce
    next
      case False
      with Some Cons.prems have "y = z" by auto
      with False z show ?thesis by fastforce
    qed
  qed
qed

lemma find_one_sorted_desc_key:
  assumes "find_one_sorted_desc p k xs = Some y"
  shows "k y = Max (set (map k (filter p xs)))"
proof -
  from find_one_sorted_desc_Some[OF assms]
  have y: "y \<in> set xs" "p y" "\<forall>x\<in>set xs. p x \<longrightarrow> k x \<le> k y" by auto
  have "Max (set (map k (filter p xs))) = k y"
  proof (rule Max_eqI)
    show "finite (set (map k (filter p xs)))" by simp
    show "\<And>v. v \<in> set (map k (filter p xs)) \<Longrightarrow> v \<le> k y" using y(3) by auto
    show "k y \<in> set (map k (filter p xs))" using y(1,2) by auto
  qed
  then show ?thesis by simp
qed


lemma join_queue_number:
  "(case find_one_sorted_desc (\<lambda>q. q_scheduleId q = sid) queueNumber (queue_entries d) of
      Some l \<Rightarrow> queueNumber l + 1 | None \<Rightarrow> 1)
   = (if queue_numbers sid d = [] then 1 else Max (set (queue_numbers sid d)) + 1)"
proof (cases "find_one_sorted_desc (\<lambda>q. q_scheduleId q = sid) queueNumber (queue_entries d)")
  case None
  then have "\<forall>q\<in>set (queue_entries d). q_scheduleId q \<noteq> sid"
    by (simp add: find_one_sorted_desc_None_iff)
  then have "queue_numbers sid d = []"
    by (simp add: queue_numbers_def filter_empty_conv)
  with None show ?thesis by simp
next
  case (Some l)
  from find_one_sorted_desc_Some[OF Some] have "l \<in> set (queue_entries d)" "q_scheduleId l = sid"
    by auto
  then have ne: "queue_numbers sid d \<noteq> []"
    by (auto simp: queue_numbers_def filter_empty_conv)
  from find_one_sorted_desc_key[OF Some] have "queueNumber l = Max (set (queue_numbers sid d))"
    by (simp add: queue_numbers_def)
  with Some ne show ?thesis by simp
qed

lemma queue_numbers_below_next:
  assumes "n \<in> set (queue_numbers sid d)"
  shows "n < (if queue_numbers sid d = [] then 1 else Max (set (queue_numbers sid d)) + 1)"
proof -
  from assms have "queue_numbers sid d \<noteq> []" by auto
  moreover from assms have "n \<le> Max (set (queue_numbers sid d))" by simp
  ultimately show ?thesis by simp
qed

lemma join_queue_overflow:
  assumes "find_one (\<lambda>s. s_id s = sid) (schedules d) = Some sched"
    and "queue_entry_of sid u d = None"
    and "\<not> int64_range (if queue_numbers sid d = [] then 1
                          else Max (set (queue_numbers sid d)) + 1)"
  shows "join_queue sid u e d = (Inl OverflowError, d)"
  using assms join_queue_number[of sid d]
  by (simp add: join_queue_def join_queue_checks_def join_queue_create_def queue_entry_of_def
                Let_def)

lemma join_queue_joined:
  assumes "find_one (\<lambda>s. s_id s = sid) (schedules d) = Some sched"
    and "queue_entry_of sid u d = None"
    and "int64_range (if queue_numbers sid d = [] then 1
                      else Max (set (queue_numbers sid d)) + 1)"
  shows "join_queue sid u e d =
     (Inr (MsgJoined ''Joined queue''
             (if queue_numbers sid d = [] then 1 else Max (set (queue_numbers sid d)) + 1)
             (uuid4 e 0)),
      d\<lparr>queue_entries := queue_entries d @
           [\<lparr>q_id = uuid4 e 0, q_scheduleId = sid, q_patientId = u,
             queueNumber = (if queue_numbers sid d = [] then 1
                            else Max (set (queue_numbers sid d)) + 1),
             q_status = WAITING, isReady = False, joinedAt = clock e 0\<rparr>],
         audit_logs := audit_logs d @
           [\<lparr>a_id = uuid4 e 1, actorUserId = u, actionType = ''QUEUE_JOINED'',
             a_scheduleId = Some sid, a_patientId = Some u, a_callSessionId = None,
             a_timestamp = clock e 1, metadata = []\<rparr>]\<rparr>)"
  using assms join_queue_number[of sid d]
  by (simp add: join_queue_def join_queue_checks_def join_queue_create_def queue_entry_of_def Let_def log_audit_def insert_one_def)

lemma join_queue_numbers_after:
  assumes "find_one (\<lambda>s. s_id s = sid) (schedules d) = Some sched"
    and "queue_entry_of sid u d = None"
  shows "queue_numbers sid' (snd (join_queue sid u e d)) =
           queue_numbers sid' d @
             (if sid' = sid
                 \<and> int64_range (if queue_numbers sid d = [] then 1
                                  else Max (set (queue_numbers sid d)) + 1)
              then [if queue_numbers sid d = [] then 1 else Max (set (queue_numbers sid d)) + 1]
              else [])"
proof (cases "int64_range (if queue_numbers sid d = [] then 1
                            else Max (set (queue_numbers sid d)) + 1)")
  case True
  then show ?thesis by (simp add: join_queue_joined[OF assms True] queue_numbers_def)
next
  case False
  then show ?thesis by (simp add: join_queue_overflow[OF assms False])
qed

lemma join_queue_increasing:
  assumes "sorted_wrt (<) (queue_numbers sid' d)"
  shows "sorted_wrt (<) (queue_numbers sid' (snd (join_queue sid u e d)))"
proof (cases "find_one (\<lambda>s. s_id s = sid) (schedules d)")
  case None
  then show ?thesis using assms by (simp add: join_queue_def join_queue_checks_def join_queue_create_def)
next
  case (Some sched)
  show ?thesis
  proof (cases "queue_entry_of sid u d")
    case (Some existing)
    with \<open>find_one (\<lambda>s. s_id s = sid) (schedules d) = Some sched\<close> assms show ?thesis
      by (simp add: join_queue_def join_queue_checks_def join_queue_create_def queue_entry_of_def)
  next
    case None
    note after = join_queue_numbers_after[OF \<open>find_one (\<lambda>s. s_id s = sid) (schedules d) = Some sched\<close> None]
    show ?thesis
    proof (cases "sid' = sid")
      case True
      with assms queue_numbers_below_next[of _ sid d] show ?thesis
        by (simp add: after sorted_wrt_append)
    next
      case False
      with assms show ?thesis by (simp add: after)
    qed
  qed
qed


lemma map_filter_update_one:
  "(\<And>x. k (f x) = k x) \<Longrightarrow> (\<And>x. P (f x) = P x) \<Longrightarrow>
     map k (filter P (update_one p f xs)) = map k (filter P xs)"
  by (induction xs) auto

lemma queue_numbers_update_one:
  assumes "\<And>q. queueNumber (f q) = queueNumber q" and "\<And>q. q_scheduleId (f q) = q_scheduleId q"
  shows "map queueNumber (filter (\<lambda>q. q_scheduleId q = sid) (update_one p f qs))
           = map queueNumber (filter (\<lambda>q. q_scheduleId q = sid) qs)"
  by (rule map_filter_update_one) (simp_all add: assms)

lemma qn_create_schedule:
  "queue_numbers sid (snd (create_schedule dt st en u e d)) = queue_numbers sid d"
  by (simp add: create_schedule_def Let_def log_audit_def queue_numbers_def
                queue_numbers_update_one split: option.splits)

lemma qn_start_practice:
  "queue_numbers sid (snd (start_practice sid' u e d)) = queue_numbers sid d"
  by (simp add: start_practice_def Let_def log_audit_def queue_numbers_def
                queue_numbers_update_one split: option.splits)

lemma qn_end_practice:
  "queue_numbers sid (snd (end_practice sid' u e d)) = queue_numbers sid d"
  by (simp add: end_practice_def Let_def log_audit_def queue_numbers_def
                queue_numbers_update_one split: option.splits)

lemma qn_start_call:
  "queue_numbers sid (snd (start_call sid' pid u e d)) = queue_numbers sid d"
  by (simp add: start_call_def start_call_checks_def start_call_create_def Let_def log_audit_def queue_numbers_def
                queue_numbers_update_one split: option.splits)

lemma qn_set_doctor_peer_id:
  "queue_numbers sid (snd (set_doctor_peer_id cid peer u d)) = queue_numbers sid d"
  by (simp add: set_doctor_peer_id_def Let_def log_audit_def queue_numbers_def
                queue_numbers_update_one split: option.splits)

lemma qn_end_call_doctor:
  "queue_numbers sid (snd (end_call_doctor cid u e d)) = queue_numbers sid d"
  by (simp add: end_call_doctor_def Let_def log_audit_def queue_numbers_def
                queue_numbers_update_one split: option.splits)

lemma qn_toggle_ready:
  "queue_numbers sid (snd (toggle_ready sid' rdy u e d)) = queue_numbers sid d"
  by (simp add: toggle_ready_def Let_def log_audit_def queue_numbers_def
                queue_numbers_update_one split: option.splits)

lemma qn_confirm_call:
  "queue_numbers sid (snd (confirm_call cid u e d)) = queue_numbers sid d"
  by (simp add: confirm_call_def Let_def log_audit_def queue_numbers_def
                queue_numbers_update_one split: option.splits)

lemma qn_decline_call:
  "queue_numbers sid (snd (decline_call cid u e d)) = queue_numbers sid d"
  by (simp add: decline_call_def Let_def log_audit_def queue_numbers_def
                queue_numbers_update_one split: option.splits)

lemma qn_set_patient_peer_id:
  "queue_numbers sid (snd (set_patient_peer_id cid peer u d)) = queue_numbers sid d"
  by (simp add: set_patient_peer_id_def Let_def log_audit_def queue_numbers_def
                queue_numbers_update_one split: option.splits)

lemma qn_end_call_patient:
  "queue_numbers sid (snd (end_call_patient cid u e d)) = queue_numbers sid d"
  by (simp add: end_call_patient_def Let_def log_audit_def queue_numbers_def
                queue_numbers_update_one split: option.splits)

lemma qn_activate_call:
  "queue_numbers sid (snd (activate_call cid u d)) = queue_numbers sid d"
  by (simp add: activate_call_def Let_def log_audit_def queue_numbers_def
                queue_numbers_update_one split: option.splits)

lemma handle_increasing:
  assumes "sorted_wrt (<) (queue_numbers sid d)"
  shows "sorted_wrt (<) (queue_numbers sid (snd (handle r u e d)))"
proof (cases r)
  case (JoinQueue sid')
  with join_queue_increasing[OF assms] show ?thesis by simp
qed (use assms in \<open>simp_all add: qn_create_schedule qn_start_practice qn_end_practice
      qn_start_call qn_set_doctor_peer_id qn_end_call_doctor qn_toggle_ready qn_confirm_call
      qn_decline_call qn_set_patient_peer_id qn_end_call_patient qn_activate_call\<close>)

lemma join_queue_checks_db_ready:
  "join_queue_checks ''s1'' ''p2'' db_ready = (Inr 2, db_ready)"
  "join_queue_checks ''s1'' ''p3'' db_ready = (Inr 2, db_ready)"
  by (simp_all add: join_queue_checks_def db_ready_def ex_schedule_def ex_entry_def Let_def)

lemma join_queue_race_db_ready:
  "map_option (queue_numbers ''s1'')
     (join_queue_race ''s1'' ''p2'' ''p3'' ex_env ex_env2 db_ready) = Some [1, 2, 2]"
proof -
  have r: "join_queue_race ''s1'' ''p2'' ''p3'' ex_env ex_env2 db_ready
             = Some (snd (join_queue_create ''s1'' ''p3'' ex_env2 2
                      (snd (join_queue_create ''s1'' ''p2'' ex_env 2 db_ready))))"
    by (simp add: join_queue_race_def join_queue_checks_db_ready)
  show ?thesis
    unfolding r
    by (simp add: join_queue_create_def int64_range_def Let_def log_audit_def insert_one_def
                  queue_numbers_def db_ready_def ex_entry_def)
qed

text \<open>
  C7, as stated, fails for the uniqueness of the queue numbers: the read of the largest
  number and the insertion are separate awaited database calls, and nothing serialises two
  requests. Two interleaved \<open>join_queue\<close> requests on a queue whose largest number is 1 both
  read it and both insert the number 2.
\<close>

theorem join_queue_race_counterexample:
  "sorted_wrt (<) (queue_numbers ''s1'' db_ready)
   \<and> map_option (queue_numbers ''s1'')
        (join_queue_race ''s1'' ''p2'' ''p3'' ex_env ex_env2 db_ready) = Some [1, 2, 2]
   \<and> map_option (distinct \<circ> queue_numbers ''s1'')
        (join_queue_race ''s1'' ''p2'' ''p3'' ex_env ex_env2 db_ready) = Some False"
proof -
  have a: "sorted_wrt (<) (queue_numbers ''s1'' db_ready)"
    by (simp add: queue_numbers_def db_ready_def ex_entry_def)
  from join_queue_race_db_ready obtain d'
    where r: "join_queue_race ''s1'' ''p2'' ''p3'' ex_env ex_env2 db_ready = Some d'"
      and n: "queue_numbers ''s1'' d' = [1, 2, 2]"
    by (cases "join_queue_race ''s1'' ''p2'' ''p3'' ex_env ex_env2 db_ready") simp_all
  from a r n show ?thesis by simp
qed

text \<open>
  C7, amended: \<open>join_queue\<close> raises 404 "Schedule not found" when the schedule does not
  exist and, for an existing schedule, 400 "Already in queue" when the patient has an entry
  there. Otherwise the next number is 1 for an empty queue and the largest number of the
  schedule plus 1 for any other; the handler appends a WAITING entry with it, or raises the
  driver's \<open>OverflowError\<close> and writes nothing when the number does not fit eight bytes. For
  requests that run one after the other, each to completion, the queue numbers of a
  schedule that increase strictly in the order of admission still do after any request
  (joining appends a larger number, no other handler touches them), and are distinct.
\<close>

theorem join_queue_assigns_next_number:
  "(find_one (\<lambda>s. s_id s = sid) (schedules d) = None \<longrightarrow>
      join_queue sid u e d = (Inl (HTTPException 404 ''Schedule not found''), d))
 \<and> (find_one (\<lambda>s. s_id s = sid) (schedules d) \<noteq> None \<and> queue_entry_of sid u d \<noteq> None \<longrightarrow>
      join_queue sid u e d = (Inl (HTTPException 400 ''Already in queue''), d))
 \<and> (find_one (\<lambda>s. s_id s = sid) (schedules d) \<noteq> None \<and> queue_entry_of sid u d = None
    \<and> int64_range (if queue_numbers sid d = [] then 1
                     else Max (set (queue_numbers sid d)) + 1) \<longrightarrow>
      fst (join_queue sid u e d)
        = Inr (MsgJoined ''Joined queue''
                (if queue_numbers sid d = [] then 1 else Max (set (queue_numbers sid d)) + 1)
                (uuid4 e 0))
    \<and> queue_entries (snd (join_queue sid u e d))
        = queue_entries d @
            [\<lparr>q_id = uuid4 e 0, q_scheduleId = sid, q_patientId = u,
              queueNumber = (if queue_numbers sid d = [] then 1
                             else Max (set (queue_numbers sid d)) + 1),
              q_status = WAITING, isReady = False, joinedAt = clock e 0\<rparr>])
 \<and> (find_one (\<lambda>s. s_id s = sid) (schedules d) \<noteq> None \<and> queue_entry_of sid u d = None
    \<and> \<not> int64_range (if queue_numbers sid d = [] then 1
                       else Max (set (queue_numbers sid d)) + 1) \<longrightarrow>
      join_queue sid u e d = (Inl OverflowError, d))
 \<and> (sorted_wrt (<) (queue_numbers sid' d) \<longrightarrow>
      sorted_wrt (<) (queue_numbers sid' (snd (handle r u' e' d)))
    \<and> distinct (queue_numbers sid' (snd (handle r u' e' d))))"
proof (intro conjI impI)
  assume "find_one (\<lambda>s. s_id s = sid) (schedules d) = None"
  then show "join_queue sid u e d = (Inl (HTTPException 404 ''Schedule not found''), d)"
    by (simp add: join_queue_def join_queue_checks_def join_queue_create_def)
next
  assume "find_one (\<lambda>s. s_id s = sid) (schedules d) \<noteq> None \<and> queue_entry_of sid u d \<noteq> None"
  then obtain sched existing
    where "find_one (\<lambda>s. s_id s = sid) (schedules d) = Some sched"
      and "queue_entry_of sid u d = Some existing"
    by blast
  then show "join_queue sid u e d = (Inl (HTTPException 400 ''Already in queue''), d)"
    by (simp add: join_queue_def join_queue_checks_def join_queue_create_def queue_entry_of_def)
next
  assume a: "find_one (\<lambda>s. s_id s = sid) (schedules d) \<noteq> None \<and> queue_entry_of sid u d = None
    \<and> int64_range (if queue_numbers sid d = [] then 1
                     else Max (set (queue_numbers sid d)) + 1)"
  then obtain sched where s: "find_one (\<lambda>s. s_id s = sid) (schedules d) = Some sched"
    by blast
  from a have q: "queue_entry_of sid u d = None" by simp
  from a have i: "int64_range (if queue_numbers sid d = [] then 1
                               else Max (set (queue_numbers sid d)) + 1)" by simp
  show "fst (join_queue sid u e d)
        = Inr (MsgJoined ''Joined queue''
                (if queue_numbers sid d = [] then 1 else Max (set (queue_numbers sid d)) + 1)
                (uuid4 e 0))"
    by (simp add: join_queue_joined[OF s q i])
  show "queue_entries (snd (join_queue sid u e d))
        = queue_entries d @
            [\<lparr>q_id = uuid4 e 0, q_scheduleId = sid, q_patientId = u,
              queueNumber = (if queue_numbers sid d = [] then 1
                             else Max (set (queue_numbers sid d)) + 1),
              q_status = WAITING, isReady = False, joinedAt = clock e 0\<rparr>]"
    by (simp add: join_queue_joined[OF s q i])
next
  assume a: "find_one (\<lambda>s. s_id s = sid) (schedules d) \<noteq> None \<and> queue_entry_of sid u d = None
    \<and> \<not> int64_range (if queue_numbers sid d = [] then 1
                       else Max (set (queue_numbers sid d)) + 1)"
  then obtain sched where s: "find_one (\<lambda>s. s_id s = sid) (schedules d) = Some sched"
    by blast
  from a have q: "queue_entry_of sid u d = None" by simp
  from a have i: "\<not> int64_range (if queue_numbers sid d = [] then 1
                                 else Max (set (queue_numbers sid d)) + 1)" by simp
  show "join_queue sid u e d = (Inl OverflowError, d)"
    by (rule join_queue_overflow[OF s q i])
next
  assume inc: "sorted_wrt (<) (queue_numbers sid' d)"
  from handle_increasing[OF inc]
  show "sorted_wrt (<) (queue_numbers sid' (snd (handle r u' e' d)))" .
  from handle_increasing[OF inc]
  show "distinct (queue_numbers sid' (snd (handle r u' e' d)))"
    by (simp add: strict_sorted_iff)
qed

theorem join_queue_assigns_next_number_witness:
  "join_queue ''s9'' ''p2'' ex_env db_ready
     = (Inl (HTTPException 404 ''Schedule not found''), db_ready)
   \<and> join_queue ''s1'' ''p1'' ex_env db_ready
     = (Inl (HTTPException 400 ''Already in queue''), db_ready)
   \<and> fst (join_queue ''s1'' ''p1'' ex_env db_online) = Inr (MsgJoined ''Joined queue'' 1 ''u0'')
   \<and> fst (join_queue ''s1'' ''p2'' ex_env db_ready) = Inr (MsgJoined ''Joined queue'' 2 ''u0'')
   \<and> queue_numbers ''s1'' (snd (join_queue ''s1'' ''p2'' ex_env db_ready)) = [1, 2]
   \<and> sorted_wrt (<) (queue_numbers ''s1'' db_ready)
   \<and> sorted_wrt (<) (queue_numbers ''s1'' (snd (join_queue ''s1'' ''p2'' ex_env db_ready)))
   \<and> join_queue ''s1'' ''p2'' ex_env db_last_number = (Inl OverflowError, db_last_number)"
proof -
  have s9: "find_one (\<lambda>s. s_id s = ''s9'') (schedules db_ready) = None"
    by (simp add: db_ready_def ex_schedule_def)
  have s1: "find_one (\<lambda>s. s_id s = ''s1'') (schedules db_ready) \<noteq> None"
    by (simp add: db_ready_def ex_schedule_def)
  have s1': "find_one (\<lambda>s. s_id s = ''s1'') (schedules db_online) \<noteq> None"
    by (simp add: db_online_def ex_schedule_def)
  have p1: "queue_entry_of ''s1'' ''p1'' db_ready \<noteq> None"
    by (simp add: queue_entry_of_def db_ready_def ex_entry_def)
  have p1': "queue_entry_of ''s1'' ''p1'' db_online = None"
    by (simp add: queue_entry_of_def db_online_def)
  have p2: "queue_entry_of ''s1'' ''p2'' db_ready = None"
    by (simp add: queue_entry_of_def db_ready_def ex_entry_def)
  have n0: "queue_numbers ''s1'' db_online = []"
    by (simp add: queue_numbers_def db_online_def)
  have n1: "queue_numbers ''s1'' db_ready = [1]"
    by (simp add: queue_numbers_def db_ready_def ex_entry_def)
  have u0: "uuid4 ex_env 0 = ''u0''"
    by (simp add: ex_env_def)
  from join_queue_assigns_next_number[of "''s9''" db_ready "''p2''" ex_env] s9
  have a: "join_queue ''s9'' ''p2'' ex_env db_ready
             = (Inl (HTTPException 404 ''Schedule not found''), db_ready)"
    by simp
  from join_queue_assigns_next_number[of "''s1''" db_ready "''p1''" ex_env] s1 p1
  have b: "join_queue ''s1'' ''p1'' ex_env db_ready
             = (Inl (HTTPException 400 ''Already in queue''), db_ready)"
    by simp
  from join_queue_assigns_next_number[of "''s1''" db_online "''p1''" ex_env] s1' p1'
  have c: "fst (join_queue ''s1'' ''p1'' ex_env db_online) = Inr (MsgJoined ''Joined queue'' 1 ''u0'')"
    by (simp add: n0 u0 int64_range_def)
  from join_queue_assigns_next_number[of "''s1''" db_ready "''p2''" ex_env] s1 p2
  have d: "fst (join_queue ''s1'' ''p2'' ex_env db_ready) = Inr (MsgJoined ''Joined queue'' 2 ''u0'')"
    and d': "queue_entries (snd (join_queue ''s1'' ''p2'' ex_env db_ready))
              = queue_entries db_ready @
                  [\<lparr>q_id = ''u0'', q_scheduleId = ''s1'', q_patientId = ''p2'', queueNumber = 2,
                    q_status = WAITING, isReady = False, joinedAt = clock ex_env 0\<rparr>]"
    by (simp_all add: n1 u0 int64_range_def)
  have e: "queue_numbers ''s1'' (snd (join_queue ''s1'' ''p2'' ex_env db_ready)) = [1, 2]"
    using n1 by (simp add: queue_numbers_def d')
  have inc: "sorted_wrt (<) (queue_numbers ''s1'' db_ready)"
    by (simp add: n1)
  from join_queue_assigns_next_number[where sid = "''s1''" and d = db_ready and u = "''p2''"
         and e = ex_env and sid' = "''s1''" and r = "JoinQueue ''s1''" and u' = "''p2''"
         and e' = ex_env] inc
  have f: "sorted_wrt (<) (queue_numbers ''s1'' (snd (join_queue ''s1'' ''p2'' ex_env db_ready)))"
    by simp
  have s1'': "find_one (\<lambda>s. s_id s = ''s1'') (schedules db_last_number) \<noteq> None"
    by (simp add: db_last_number_def ex_schedule_def)
  have p2'': "queue_entry_of ''s1'' ''p2'' db_last_number = None"
    by (simp add: queue_entry_of_def db_last_number_def ex_entry_def)
  have n2: "queue_numbers ''s1'' db_last_number = [9223372036854775807]"
    by (simp add: queue_numbers_def db_last_number_def ex_entry_def)
  from join_queue_assigns_next_number[of "''s1''" db_last_number "''p2''" ex_env] s1'' p2''
  have g: "join_queue ''s1'' ''p2'' ex_env db_last_number = (Inl OverflowError, db_last_number)"
    by (simp add: n2 int64_range_def)
  from a b c d e inc f g show ?thesis by simp
qed

subsection \<open>The expiry sweep of an invitation request\<close>

lemma start_call_online_sessions:
  assumes "find_one (\<lambda>s. s_id s = sid \<and> s_doctorId s = u) (schedules d) = Some sched"
    and "s_status sched = ONLINE"
  shows "\<exists>tail. call_sessions (snd (start_call sid pid u e d)) =
           update_many (\<lambda>c. c_scheduleId c = sid \<and> c_status c = INVITED
                              \<and> createdAt c < clock e 0 - sixty_seconds)
             (\<lambda>c. c\<lparr>c_status := EXPIRED, endedAt := Some (clock e 1)\<rparr>) (call_sessions d) @ tail"
  using assms
  by (simp add: start_call_def start_call_checks_def start_call_create_def Let_def
                log_audit_def insert_one_def split: option.splits)

lemma nth_update_many:
  "i < length xs \<Longrightarrow> p (xs ! i) \<Longrightarrow> (update_many p f xs @ tail) ! i = f (xs ! i)"
  by (simp add: update_many_def nth_append)

lemma start_call_invites:
  assumes "find_one (\<lambda>s. s_id s = sid \<and> s_doctorId s = u) (schedules d) = Some sched"
    and "s_status sched = ONLINE"
    and "\<forall>c\<in>set (call_sessions d). c_scheduleId c = sid \<and> is_active (c_status c) \<longrightarrow> stale e c"
    and "queue_entry_of sid pid d = Some entry"
    and "q_status entry = READY"
  shows "fst (start_call sid pid u e d) = Inr (MsgInvited ''Invitation sent'' (uuid4 e 0) INVITED)"
    and "call_sessions (snd (start_call sid pid u e d)) =
           update_many (\<lambda>c. c_scheduleId c = sid \<and> c_status c = INVITED
                              \<and> createdAt c < clock e 0 - sixty_seconds)
             (\<lambda>c. c\<lparr>c_status := EXPIRED, endedAt := Some (clock e 1)\<rparr>) (call_sessions d) @
           [\<lparr>c_id = uuid4 e 0, c_scheduleId = sid, c_doctorId = u, c_patientId = pid,
             c_status = INVITED, createdAt = clock e 2, confirmedAt = None, endedAt = None,
             doctorPeerId = None, patientPeerId = None\<rparr>]"
  using assms(1,2,4,5) sweep_leaves_no_active[OF assms(3)]
  by (simp_all add: start_call_def start_call_checks_def start_call_create_def Let_def
                log_audit_def insert_one_def queue_entry_of_def)


text \<open>
  C4: on every \<open>start_call\<close> for a schedule of the doctor that is ONLINE, whether the request
  then succeeds or fails, each call session of the schedule that is INVITED and was created
  more than sixty seconds before the first clock reading is EXPIRED afterwards, with
  \<open>endedAt\<close> set. The sweep comes before the check for an active call: when every active
  call of the schedule is such a stale invitation and the patient is READY, the request
  succeeds and appends the new INVITED session.
\<close>

theorem start_call_expires_stale_invitations:
  assumes "find_one (\<lambda>s. s_id s = sid \<and> s_doctorId s = u) (schedules d) = Some sched"
    and "s_status sched = ONLINE"
  shows "(\<forall>i<length (call_sessions d).
            c_scheduleId (call_sessions d ! i) = sid \<and> stale e (call_sessions d ! i) \<longrightarrow>
            call_sessions (snd (start_call sid pid u e d)) ! i
              = (call_sessions d ! i)\<lparr>c_status := EXPIRED, endedAt := Some (clock e 1)\<rparr>)
       \<and> ((\<forall>c\<in>set (call_sessions d).
              c_scheduleId c = sid \<and> is_active (c_status c) \<longrightarrow> stale e c)
           \<and> (\<exists>entry. queue_entry_of sid pid d = Some entry \<and> q_status entry = READY) \<longrightarrow>
             fst (start_call sid pid u e d)
               = Inr (MsgInvited ''Invitation sent'' (uuid4 e 0) INVITED)
           \<and> length (call_sessions (snd (start_call sid pid u e d)))
               = length (call_sessions d) + 1
           \<and> last (call_sessions (snd (start_call sid pid u e d)))
               = \<lparr>c_id = uuid4 e 0, c_scheduleId = sid, c_doctorId = u, c_patientId = pid,
                  c_status = INVITED, createdAt = clock e 2, confirmedAt = None, endedAt = None,
                  doctorPeerId = None, patientPeerId = None\<rparr>)"
proof (intro conjI allI impI)
  fix i
  assume i: "i < length (call_sessions d)"
    and st: "c_scheduleId (call_sessions d ! i) = sid \<and> stale e (call_sessions d ! i)"
  from start_call_online_sessions[OF assms, of pid e] obtain tail
    where t: "call_sessions (snd (start_call sid pid u e d)) =
           update_many (\<lambda>c. c_scheduleId c = sid \<and> c_status c = INVITED
                              \<and> createdAt c < clock e 0 - sixty_seconds)
             (\<lambda>c. c\<lparr>c_status := EXPIRED, endedAt := Some (clock e 1)\<rparr>) (call_sessions d) @ tail"
    by blast
  from st have p: "c_scheduleId (call_sessions d ! i) = sid \<and> c_status (call_sessions d ! i) = INVITED
            \<and> createdAt (call_sessions d ! i) < clock e 0 - sixty_seconds"
    by (simp add: stale_def)
  show "call_sessions (snd (start_call sid pid u e d)) ! i
          = (call_sessions d ! i)\<lparr>c_status := EXPIRED, endedAt := Some (clock e 1)\<rparr>"
    unfolding t using i p by (rule nth_update_many)
next
  assume a: "(\<forall>c\<in>set (call_sessions d).
              c_scheduleId c = sid \<and> is_active (c_status c) \<longrightarrow> stale e c)
           \<and> (\<exists>entry. queue_entry_of sid pid d = Some entry \<and> q_status entry = READY)"
  then obtain entry where q: "queue_entry_of sid pid d = Some entry" and r: "q_status entry = READY"
    by blast
  from a have nb: "\<forall>c\<in>set (call_sessions d).
              c_scheduleId c = sid \<and> is_active (c_status c) \<longrightarrow> stale e c"
    by simp
  note inv = start_call_invites[OF assms nb q r]
  show "fst (start_call sid pid u e d) = Inr (MsgInvited ''Invitation sent'' (uuid4 e 0) INVITED)"
    by (rule inv(1))
  show "length (call_sessions (snd (start_call sid pid u e d))) = length (call_sessions d) + 1"
    by (simp add: inv(2) update_many_def)
  show "last (call_sessions (snd (start_call sid pid u e d)))
               = \<lparr>c_id = uuid4 e 0, c_scheduleId = sid, c_doctorId = u, c_patientId = pid,
                  c_status = INVITED, createdAt = clock e 2, confirmedAt = None, endedAt = None,
                  doctorPeerId = None, patientPeerId = None\<rparr>"
    by (simp add: inv(2))
qed

lemma db_invited_schedule:
  "find_one (\<lambda>s. s_id s = ''s1'' \<and> s_doctorId s = ''d1'') (schedules db_invited) = Some ex_schedule"
  by (simp add: db_invited_def ex_schedule_def)

lemma ex_schedule_online: "s_status ex_schedule = ONLINE"
  by (simp add: ex_schedule_def)

lemma ex_call_stale: "stale ex_env (ex_call INVITED None)"
  by (simp add: stale_def ex_call_def ex_env_def sixty_seconds_def)

theorem start_call_expires_stale_invitations_witness:
  "call_sessions db_invited = [ex_call INVITED None]
   \<and> stale ex_env (ex_call INVITED None)
   \<and> fst (start_call ''s1'' ''p1'' ''d1'' ex_env db_invited)
       = Inr (MsgInvited ''Invitation sent'' ''u0'' INVITED)
   \<and> call_sessions (snd (start_call ''s1'' ''p1'' ''d1'' ex_env db_invited)) ! 0
       = ex_call EXPIRED (Some 100000001)
   \<and> c_status (last (call_sessions (snd (start_call ''s1'' ''p1'' ''d1'' ex_env db_invited))))
       = INVITED"
proof -
  have cs: "call_sessions db_invited = [ex_call INVITED None]"
    by (simp add: db_invited_def)
  have sch: "c_scheduleId (ex_call INVITED None) = ''s1''"
    by (simp add: ex_call_def)
  have nb: "\<forall>c\<in>set (call_sessions db_invited).
              c_scheduleId c = ''s1'' \<and> is_active (c_status c) \<longrightarrow> stale ex_env c"
    by (simp add: cs ex_call_stale)
  have q: "\<exists>entry. queue_entry_of ''s1'' ''p1'' db_invited = Some entry \<and> q_status entry = READY"
    by (simp add: queue_entry_of_def db_invited_def ex_entry_def)
  have upd: "(ex_call INVITED None)\<lparr>c_status := EXPIRED, endedAt := Some (clock ex_env (Suc 0))\<rparr>
               = ex_call EXPIRED (Some 100000001)"
    by (simp add: ex_call_def ex_env_def)
  have u0: "uuid4 ex_env 0 = ''u0''"
    by (simp add: ex_env_def)
  from start_call_expires_stale_invitations[OF db_invited_schedule ex_schedule_online,
         of ex_env "''p1''"] nb q
  show ?thesis by (simp add: cs sch ex_call_stale upd u0)
qed

subsection \<open>Requests that fail\<close>

lemma create_schedule_no_error: "fst (create_schedule dt st en u e d) \<noteq> Inl err"
  by (simp add: create_schedule_def Let_def)

lemma start_practice_failed:
  "fst (start_practice sid u e d) = Inl err \<Longrightarrow> snd (start_practice sid u e d) = d"
  by (simp add: start_practice_def Let_def split: option.splits if_splits)

lemma end_practice_failed:
  "fst (end_practice sid u e d) = Inl err \<Longrightarrow> snd (end_practice sid u e d) = d"
  by (simp add: end_practice_def Let_def split: option.splits if_splits)

lemma set_doctor_peer_id_failed:
  "fst (set_doctor_peer_id cid peer u d) = Inl err \<Longrightarrow> snd (set_doctor_peer_id cid peer u d) = d"
  by (simp add: set_doctor_peer_id_def split: option.splits)

lemma end_call_doctor_failed:
  "fst (end_call_doctor cid u e d) = Inl err \<Longrightarrow> snd (end_call_doctor cid u e d) = d"
  by (simp add: end_call_doctor_def Let_def split: option.splits)

lemma join_queue_failed:
  "fst (join_queue sid u e d) = Inl err \<Longrightarrow> snd (join_queue sid u e d) = d"
  by (simp add: join_queue_def join_queue_checks_def join_queue_create_def Let_def
           split: option.splits if_splits)

lemma toggle_ready_failed:
  "fst (toggle_ready sid r u e d) = Inl err \<Longrightarrow> snd (toggle_ready sid r u e d) = d"
  by (simp add: toggle_ready_def Let_def split: option.splits if_splits)

lemma confirm_call_failed:
  "fst (confirm_call cid u e d) = Inl err \<Longrightarrow> snd (confirm_call cid u e d) = d"
  by (simp add: confirm_call_def Let_def split: option.splits if_splits)

lemma decline_call_failed:
  "fst (decline_call cid u e d) = Inl err \<Longrightarrow> snd (decline_call cid u e d) = d"
  by (simp add: decline_call_def Let_def split: option.splits if_splits)

lemma set_patient_peer_id_failed:
  "fst (set_patient_peer_id cid peer u d) = Inl err \<Longrightarrow> snd (set_patient_peer_id cid peer u d) = d"
  by (simp add: set_patient_peer_id_def split: option.splits)

lemma end_call_patient_failed:
  "fst (end_call_patient cid u e d) = Inl err \<Longrightarrow> snd (end_call_patient cid u e d) = d"
  by (simp add: end_call_patient_def Let_def split: option.splits)

lemma activate_call_failed:
  "fst (activate_call cid u d) = Inl err \<Longrightarrow> snd (activate_call cid u d) = d"
proof (cases "find_one (\<lambda>c. c_id c = cid) (call_sessions d)")
  case None
  then show ?thesis by (simp add: activate_call_def)
next
  case (Some session)
  assume "fst (activate_call cid u d) = Inl err"
  with Some show ?thesis
    by (cases "u \<noteq> c_doctorId session \<and> u \<noteq> c_patientId session";
        cases "c_status session \<noteq> CONFIRMED") (simp_all add: activate_call_def)
qed

lemma start_call_failed:
  "fst (start_call sid pid u e d) = Inl err \<Longrightarrow>
     snd (start_call sid pid u e d) = d
   \<or> snd (start_call sid pid u e d) =
       d\<lparr>call_sessions := update_many
            (\<lambda>c. c_scheduleId c = sid \<and> c_status c = INVITED
                  \<and> createdAt c < clock e 0 - sixty_seconds)
            (\<lambda>c. c\<lparr>c_status := EXPIRED, endedAt := Some (clock e 1)\<rparr>) (call_sessions d)\<rparr>"
  by (simp add: start_call_def start_call_checks_def start_call_create_def Let_def
           split: option.splits if_splits)


lemma start_call_checks_db_invited_p2:
  "start_call_checks ''s1'' ''p2'' ''d1'' ex_env db_invited =
     (Inl (HTTPException 404 ''Patient not in queue''),
      db_invited\<lparr>call_sessions := [ex_call EXPIRED (Some 100000001)]\<rparr>)"
  by (simp add: start_call_checks_def db_invited_def ex_schedule_def ex_call_def ex_entry_def
                ex_env_def update_many_def sixty_seconds_def is_active_def Let_def)

text \<open>
  C2, as stated, fails for \<open>start_call\<close>: the sweep is written before the checks that can
  still reject the request. Inviting a patient who is not in the queue fails with 404, and
  the stale invitation of another patient has been set to EXPIRED all the same.
\<close>

theorem start_call_failed_counterexample:
  "fst (start_call ''s1'' ''p2'' ''d1'' ex_env db_invited)
     = Inl (HTTPException 404 ''Patient not in queue'')
   \<and> map c_status (call_sessions db_invited) = [INVITED]
   \<and> map c_status (call_sessions (snd (start_call ''s1'' ''p2'' ''d1'' ex_env db_invited)))
       = [EXPIRED]
   \<and> snd (start_call ''s1'' ''p2'' ''d1'' ex_env db_invited) \<noteq> db_invited"
proof -
  have a: "fst (start_call ''s1'' ''p2'' ''d1'' ex_env db_invited)
             = Inl (HTTPException 404 ''Patient not in queue'')"
    by (simp add: start_call_def start_call_checks_db_invited_p2)
  have b: "map c_status (call_sessions db_invited) = [INVITED]"
    by (simp add: db_invited_def ex_call_def)
  have c: "map c_status (call_sessions (snd (start_call ''s1'' ''p2'' ''d1'' ex_env db_invited)))
             = [EXPIRED]"
    by (simp add: start_call_def start_call_checks_db_invited_p2 ex_call_def)
  from b c have d: "snd (start_call ''s1'' ''p2'' ''d1'' ex_env db_invited) \<noteq> db_invited"
    by auto
  from a b c d show ?thesis by simp
qed

text \<open>
  C2, amended: a request that fails leaves the database as it was, except that a failing
  \<open>start_call\<close> may have applied its expiry sweep to the call sessions (every other
  collection, and every session the sweep does not select, is unchanged).
\<close>

theorem failed_request_leaves_store:
  assumes "fst (handle r u e d) = Inl err"
  shows "snd (handle r u e d) = d
       \<or> (\<exists>sid pid. r = StartCall sid pid
            \<and> snd (handle r u e d) =
                d\<lparr>call_sessions := update_many
                     (\<lambda>c. c_scheduleId c = sid \<and> c_status c = INVITED
                           \<and> createdAt c < clock e 0 - sixty_seconds)
                     (\<lambda>c. c\<lparr>c_status := EXPIRED, endedAt := Some (clock e 1)\<rparr>)
                     (call_sessions d)\<rparr>)"
proof (cases r)
  case (CreateSchedule dt st en)
  with assms create_schedule_no_error show ?thesis by simp
next
  case (StartPractice sid)
  with assms start_practice_failed show ?thesis by simp
next
  case (EndPractice sid)
  with assms end_practice_failed show ?thesis by simp
next
  case (StartCall sid pid)
  with assms start_call_failed[of sid pid u e d err] show ?thesis by simp
next
  case (SetDoctorPeerId cid peer)
  with assms set_doctor_peer_id_failed show ?thesis by simp
next
  case (EndCallDoctor cid)
  with assms end_call_doctor_failed show ?thesis by simp
next
  case (JoinQueue sid)
  with assms join_queue_failed show ?thesis by simp
next
  case (ToggleReady sid rdy)
  with assms toggle_ready_failed show ?thesis by simp
next
  case (ConfirmCall cid)
  with assms confirm_call_failed show ?thesis by simp
next
  case (DeclineCall cid)
  with assms decline_call_failed show ?thesis by simp
next
  case (SetPatientPeerId cid peer)
  with assms set_patient_peer_id_failed show ?thesis by simp
next
  case (EndCallPatient cid)
  with assms end_call_patient_failed show ?thesis by simp
next
  case (ActivateCall cid)
  with assms activate_call_failed show ?thesis by simp
qed

theorem failed_request_leaves_store_witness:
  "fst (handle (ConfirmCall ''c1'') ''p1'' ex_env db_declined)
     = Inl (HTTPException 400 ''Cannot confirm call in status: DECLINED'')
   \<and> snd (handle (ConfirmCall ''c1'') ''p1'' ex_env db_declined) = db_declined"
proof -
  have f: "fst (handle (ConfirmCall ''c1'') ''p1'' ex_env db_declined)
             = Inl (HTTPException 400 ''Cannot confirm call in status: DECLINED'')"
    by (simp add: confirm_call_def db_declined_def ex_call_def)
  from failed_request_leaves_store[OF f] f show ?thesis by simp
qed

subsection \<open>The readiness flag of a queue entry\<close>

lemma list_all_update_one:
  "list_all P xs \<Longrightarrow> (\<forall>x. P x \<longrightarrow> P (f x)) \<Longrightarrow> list_all P (update_one p f xs)"
  by (induction xs) auto

lemma list_all_insert_one:
  "list_all P xs \<Longrightarrow> P x \<Longrightarrow> list_all P (insert_one x xs)"
  by (simp add: insert_one_def)

lemma ready_consistent_updates:
  "\<forall>q. ready_consistent q \<longrightarrow> ready_consistent (q\<lparr>q_status := IN_CALL\<rparr>)"
  "\<forall>q. ready_consistent q \<longrightarrow> ready_consistent (q\<lparr>q_status := DONE\<rparr>)"
  "\<forall>q. ready_consistent q \<longrightarrow> ready_consistent (q\<lparr>q_status := WAITING, isReady := False\<rparr>)"
  "\<forall>q. ready_consistent q \<longrightarrow> ready_consistent (q\<lparr>q_status := READY, isReady := True\<rparr>)"
  by (simp_all add: ready_consistent_def)

lemma rc_create_schedule:
  "queue_entries (snd (create_schedule dt st en u e d)) = queue_entries d"
  by (simp add: create_schedule_def Let_def log_audit_def)

lemma rc_start_practice:
  "queue_entries (snd (start_practice sid u e d)) = queue_entries d"
  by (simp add: start_practice_def Let_def log_audit_def split: option.splits)

lemma rc_end_practice:
  "queue_entries (snd (end_practice sid u e d)) = queue_entries d"
  by (simp add: end_practice_def Let_def log_audit_def split: option.splits)

lemma rc_start_call:
  "queue_entries (snd (start_call sid pid u e d)) = queue_entries d"
  by (simp add: start_call_def start_call_checks_def start_call_create_def Let_def log_audit_def
           split: option.splits)

lemma rc_set_doctor_peer_id:
  "queue_entries (snd (set_doctor_peer_id cid peer u d)) = queue_entries d"
  by (simp add: set_doctor_peer_id_def split: option.splits)

lemma rc_set_patient_peer_id:
  "queue_entries (snd (set_patient_peer_id cid peer u d)) = queue_entries d"
  by (simp add: set_patient_peer_id_def split: option.splits)

lemma rc_activate_call:
  "queue_entries (snd (activate_call cid u d)) = queue_entries d"
  by (simp add: activate_call_def split: option.splits)

lemma rc_end_call_doctor:
  "list_all ready_consistent (queue_entries d) \<Longrightarrow>
   list_all ready_consistent (queue_entries (snd (end_call_doctor cid u e d)))"
  by (simp add: end_call_doctor_def Let_def log_audit_def list_all_update_one
                ready_consistent_updates split: option.splits)

lemma rc_end_call_patient:
  "list_all ready_consistent (queue_entries d) \<Longrightarrow>
   list_all ready_consistent (queue_entries (snd (end_call_patient cid u e d)))"
  by (simp add: end_call_patient_def Let_def log_audit_def list_all_update_one
                ready_consistent_updates split: option.splits)

lemma rc_confirm_call:
  "list_all ready_consistent (queue_entries d) \<Longrightarrow>
   list_all ready_consistent (queue_entries (snd (confirm_call cid u e d)))"
  by (simp add: confirm_call_def Let_def log_audit_def list_all_update_one
                ready_consistent_updates split: option.splits)

lemma rc_decline_call:
  "list_all ready_consistent (queue_entries d) \<Longrightarrow>
   list_all ready_consistent (queue_entries (snd (decline_call cid u e d)))"
  by (simp add: decline_call_def Let_def log_audit_def list_all_update_one
                ready_consistent_updates split: option.splits)

lemma rc_toggle_ready:
  "list_all ready_consistent (queue_entries d) \<Longrightarrow>
   list_all ready_consistent (queue_entries (snd (toggle_ready sid r u e d)))"
  by (simp add: toggle_ready_def Let_def log_audit_def list_all_update_one
                ready_consistent_updates split: option.splits)

lemma rc_join_queue:
  "list_all ready_consistent (queue_entries d) \<Longrightarrow>
   list_all ready_consistent (queue_entries (snd (join_queue sid u e d)))"
  by (simp add: join_queue_def join_queue_checks_def join_queue_create_def Let_def log_audit_def insert_one_def ready_consistent_def
           split: option.splits)


lemma confirm_call_db_invited_entries:
  "queue_entries (snd (confirm_call ''c1'' ''p1'' ex_env db_invited))
     = [ex_entry ''q1'' ''p1'' 1 IN_CALL True]"
  by (simp add: confirm_call_def db_invited_def ex_call_def ex_entry_def Let_def log_audit_def)

text \<open>
  C3, as stated, fails: \<open>confirm_call\<close> writes the status IN_CALL and leaves \<open>isReady\<close> as it
  is, so the entry of a patient who was READY is IN_CALL with \<open>isReady\<close> true.
\<close>

theorem confirm_call_ready_flag_counterexample:
  "list_all ready_matches_status (queue_entries db_invited)
   \<and> fst (handle (ConfirmCall ''c1'') ''p1'' ex_env db_invited)
       = Inr (MsgCall ''Call confirmed'' ''c1'')
   \<and> queue_entries (snd (handle (ConfirmCall ''c1'') ''p1'' ex_env db_invited))
       = [ex_entry ''q1'' ''p1'' 1 IN_CALL True]
   \<and> \<not> list_all ready_matches_status
         (queue_entries (snd (handle (ConfirmCall ''c1'') ''p1'' ex_env db_invited)))"
proof -
  have a: "list_all ready_matches_status (queue_entries db_invited)"
    by (simp add: db_invited_def ex_entry_def ready_matches_status_def)
  have b: "fst (handle (ConfirmCall ''c1'') ''p1'' ex_env db_invited)
             = Inr (MsgCall ''Call confirmed'' ''c1'')"
    by (simp add: confirm_call_def db_invited_def ex_call_def Let_def)
  have c: "queue_entries (snd (handle (ConfirmCall ''c1'') ''p1'' ex_env db_invited))
             = [ex_entry ''q1'' ''p1'' 1 IN_CALL True]"
    by (simp add: confirm_call_db_invited_entries)
  have d: "\<not> list_all ready_matches_status
               (queue_entries (snd (handle (ConfirmCall ''c1'') ''p1'' ex_env db_invited)))"
    unfolding c by (simp add: ex_entry_def ready_matches_status_def)
  from a b c d show ?thesis by simp
qed

text \<open>
  C3, amended: every request keeps \<open>isReady\<close> true on the entries that are READY and false
  on the entries that are WAITING; on entries that are IN_CALL or DONE the flag keeps the
  value it had when the call was confirmed or ended.
\<close>

theorem handle_keeps_ready_consistent:
  assumes "list_all ready_consistent (queue_entries d)"
  shows "list_all ready_consistent (queue_entries (snd (handle r u e d)))"
proof (cases r)
  case (CreateSchedule dt st en)
  with assms show ?thesis by (simp add: rc_create_schedule)
next
  case (StartPractice sid)
  with assms show ?thesis by (simp add: rc_start_practice)
next
  case (EndPractice sid)
  with assms show ?thesis by (simp add: rc_end_practice)
next
  case (StartCall sid pid)
  with assms show ?thesis by (simp add: rc_start_call)
next
  case (SetDoctorPeerId cid peer)
  with assms show ?thesis by (simp add: rc_set_doctor_peer_id)
next
  case (EndCallDoctor cid)
  with assms show ?thesis by (simp add: rc_end_call_doctor)
next
  case (JoinQueue sid)
  with assms show ?thesis by (simp add: rc_join_queue)
next
  case (ToggleReady sid rdy)
  with assms show ?thesis by (simp add: rc_toggle_ready)
next
  case (ConfirmCall cid)
  with assms show ?thesis by (simp add: rc_confirm_call)
next
  case (DeclineCall cid)
  with assms show ?thesis by (simp add: rc_decline_call)
next
  case (SetPatientPeerId cid peer)
  with assms show ?thesis by (simp add: rc_set_patient_peer_id)
next
  case (EndCallPatient cid)
  with assms show ?thesis by (simp add: rc_end_call_patient)
next
  case (ActivateCall cid)
  with assms show ?thesis by (simp add: rc_activate_call)
qed

theorem handle_keeps_ready_consistent_witness:
  "list_all ready_consistent (queue_entries db_invited)
   \<and> list_all ready_consistent
       (queue_entries (snd (handle (ConfirmCall ''c1'') ''p1'' ex_env db_invited)))"
proof -
  have a: "list_all ready_consistent (queue_entries db_invited)"
    by (simp add: db_invited_def ex_entry_def ready_consistent_def)
  from a handle_keeps_ready_consistent[OF a, of "ConfirmCall ''c1''" "''p1''" ex_env]
  show ?thesis by (rule conjI)
qed

subsection \<open>The single active call of a schedule\<close>

lemma map_update_one:
  "(\<And>x. k (f x) = k x) \<Longrightarrow> map k (update_one p f xs) = map k xs"
  by (induction xs) auto

lemma map_update_many:
  "(\<And>x. k (f x) = k x) \<Longrightarrow> map k (update_many p f xs) = map k xs"
  by (simp add: update_many_def)

lemma filter_update_one_le:
  "(\<And>x. x \<in> set xs \<Longrightarrow> p x \<Longrightarrow> P (f x) \<Longrightarrow> P x) \<Longrightarrow>
     length (filter P (update_one p f xs)) \<le> length (filter P xs)"
  by (induction xs) auto

lemma filter_update_many_le:
  "(\<And>x. x \<in> set xs \<Longrightarrow> p x \<Longrightarrow> P (f x) \<Longrightarrow> P x) \<Longrightarrow>
     length (filter P (update_many p f xs)) \<le> length (filter P xs)"
proof (induction xs)
  case Nil
  then show ?case by (simp add: update_many_def)
next
  case (Cons x xs)
  then have "length (filter P (update_many p f xs)) \<le> length (filter P xs)" by simp
  moreover have "p x \<Longrightarrow> P (f x) \<Longrightarrow> P x" using Cons.prems by simp
  ultimately show ?case by (auto simp: update_many_def)
qed

lemma distinct_key_eq:
  "distinct (map k xs) \<Longrightarrow> x \<in> set xs \<Longrightarrow> y \<in> set xs \<Longrightarrow> k x = k y \<Longrightarrow> x = y"
  by (meson distinct_map inj_on_eq_iff)

lemma filter_update_one_key_le:
  assumes "distinct (map k xs)" and "s \<in> set xs" and "k s = i" and "P (f s) \<Longrightarrow> P s"
  shows "length (filter P (update_one (\<lambda>x. k x = i) f xs)) \<le> length (filter P xs)"
proof (rule filter_update_one_le)
  fix x assume "x \<in> set xs" "k x = i" "P (f x)"
  with assms(1-3) have "x = s" using distinct_key_eq[of k xs x s] by simp
  with \<open>P (f x)\<close> assms(4) show "P x" by simp
qed

lemma per_key_bound_iff:
  "list_all (\<lambda>x. length (filter (\<lambda>y. k y = k x \<and> P y) xs) \<le> n) xs
     \<longleftrightarrow> (\<forall>v. length (filter (\<lambda>y. k y = v \<and> P y) xs) \<le> n)"
proof
  assume l: "list_all (\<lambda>x. length (filter (\<lambda>y. k y = k x \<and> P y) xs) \<le> n) xs"
  show "\<forall>v. length (filter (\<lambda>y. k y = v \<and> P y) xs) \<le> n"
  proof
    fix v
    show "length (filter (\<lambda>y. k y = v \<and> P y) xs) \<le> n"
    proof (cases "\<exists>x\<in>set xs. k x = v")
      case True
      with l show ?thesis by (auto simp: list_all_iff)
    next
      case False
      then have "filter (\<lambda>y. k y = v \<and> P y) xs = []" by (auto simp: filter_empty_conv)
      then show ?thesis by simp
    qed
  qed
next
  assume "\<forall>v. length (filter (\<lambda>y. k y = v \<and> P y) xs) \<le> n"
  then show "list_all (\<lambda>x. length (filter (\<lambda>y. k y = k x \<and> P y) xs) \<le> n) xs"
    by (simp add: list_all_iff)
qed

lemma single_active_call_iff:
  "single_active_call d \<longleftrightarrow> (\<forall>sid. length (active_calls sid (call_sessions d)) \<le> 1)"
  unfolding single_active_call_def active_calls_def
  by (rule per_key_bound_iff)


lemma ids_create_schedule:
  "map c_id (call_sessions (snd (create_schedule dt st en u e d))) = map c_id (call_sessions d)"
  by (simp add: create_schedule_def Let_def log_audit_def map_update_one map_update_many
           split: option.splits)

lemma ids_start_practice:
  "map c_id (call_sessions (snd (start_practice sid u e d))) = map c_id (call_sessions d)"
  by (simp add: start_practice_def Let_def log_audit_def map_update_one map_update_many
           split: option.splits)

lemma ids_end_practice:
  "map c_id (call_sessions (snd (end_practice sid u e d))) = map c_id (call_sessions d)"
  by (simp add: end_practice_def Let_def log_audit_def map_update_one map_update_many
           split: option.splits)

lemma ids_set_doctor_peer_id:
  "map c_id (call_sessions (snd (set_doctor_peer_id cid peer u d))) = map c_id (call_sessions d)"
  by (simp add: set_doctor_peer_id_def Let_def log_audit_def map_update_one map_update_many
           split: option.splits)

lemma ids_end_call_doctor:
  "map c_id (call_sessions (snd (end_call_doctor cid u e d))) = map c_id (call_sessions d)"
  by (simp add: end_call_doctor_def Let_def log_audit_def map_update_one map_update_many
           split: option.splits)

lemma ids_join_queue:
  "map c_id (call_sessions (snd (join_queue sid u e d))) = map c_id (call_sessions d)"
  by (simp add: join_queue_def join_queue_checks_def join_queue_create_def Let_def log_audit_def map_update_one map_update_many
           split: option.splits)

lemma ids_toggle_ready:
  "map c_id (call_sessions (snd (toggle_ready sid r u e d))) = map c_id (call_sessions d)"
  by (simp add: toggle_ready_def Let_def log_audit_def map_update_one map_update_many
           split: option.splits)

lemma ids_confirm_call:
  "map c_id (call_sessions (snd (confirm_call cid u e d))) = map c_id (call_sessions d)"
  by (simp add: confirm_call_def Let_def log_audit_def map_update_one map_update_many
           split: option.splits)

lemma ids_decline_call:
  "map c_id (call_sessions (snd (decline_call cid u e d))) = map c_id (call_sessions d)"
  by (simp add: decline_call_def Let_def log_audit_def map_update_one map_update_many
           split: option.splits)

lemma ids_set_patient_peer_id:
  "map c_id (call_sessions (snd (set_patient_peer_id cid peer u d))) = map c_id (call_sessions d)"
  by (simp add: set_patient_peer_id_def Let_def log_audit_def map_update_one map_update_many
           split: option.splits)

lemma ids_end_call_patient:
  "map c_id (call_sessions (snd (end_call_patient cid u e d))) = map c_id (call_sessions d)"
  by (simp add: end_call_patient_def Let_def log_audit_def map_update_one map_update_many
           split: option.splits)

lemma ids_activate_call:
  "map c_id (call_sessions (snd (activate_call cid u d))) = map c_id (call_sessions d)"
  by (simp add: activate_call_def Let_def log_audit_def map_update_one map_update_many
           split: option.splits)

lemma cs_create_schedule:
  "call_sessions (snd (create_schedule dt st en u e d)) = call_sessions d"
  by (simp add: create_schedule_def Let_def log_audit_def split: option.splits)

lemma cs_start_practice:
  "call_sessions (snd (start_practice sid u e d)) = call_sessions d"
  by (simp add: start_practice_def Let_def log_audit_def split: option.splits)

lemma cs_join_queue:
  "call_sessions (snd (join_queue sid u e d)) = call_sessions d"
  by (simp add: join_queue_def join_queue_checks_def join_queue_create_def Let_def log_audit_def split: option.splits)

lemma cs_toggle_ready:
  "call_sessions (snd (toggle_ready sid r u e d)) = call_sessions d"
  by (simp add: toggle_ready_def Let_def log_audit_def split: option.splits)

lemma calls_update_one_le:
  assumes "\<And>c. c_scheduleId (f c) = sid \<Longrightarrow> is_active (c_status (f c)) \<Longrightarrow>
                c_scheduleId c = sid \<and> is_active (c_status c)"
  shows "length (active_calls sid (update_one p f cs)) \<le> length (active_calls sid cs)"
  unfolding active_calls_def
  by (rule filter_update_one_le) (use assms in blast)

lemma calls_update_many_le:
  assumes "\<And>c. c_scheduleId (f c) = sid \<Longrightarrow> is_active (c_status (f c)) \<Longrightarrow>
                c_scheduleId c = sid \<and> is_active (c_status c)"
  shows "length (active_calls sid (update_many p f cs)) \<le> length (active_calls sid cs)"
  unfolding active_calls_def
  by (rule filter_update_many_le) (use assms in blast)

lemma le_end_practice:
  "length (active_calls sid (call_sessions (snd (end_practice sid' u e d))))
     \<le> length (active_calls sid (call_sessions d))"
proof (cases "find_one (\<lambda>s. s_id s = sid' \<and> s_doctorId s = u) (schedules d)")
  case None
  then show ?thesis by (simp add: end_practice_def)
next
  case (Some sched)
  have "length (active_calls sid (update_many
          (\<lambda>c. c_scheduleId c = sid' \<and> is_active (c_status c))
          (\<lambda>c. c\<lparr>c_status := ENDED, endedAt := Some (clock e 0)\<rparr>) (call_sessions d)))
        \<le> length (active_calls sid (call_sessions d))"
    by (rule calls_update_many_le) (simp add: is_active_def)
  with Some show ?thesis by (simp add: end_practice_def Let_def log_audit_def)
qed

lemma le_set_doctor_peer_id:
  "length (active_calls sid (call_sessions (snd (set_doctor_peer_id cid peer u d))))
     \<le> length (active_calls sid (call_sessions d))"
proof (cases "find_one (\<lambda>c. c_id c = cid \<and> c_doctorId c = u) (call_sessions d)")
  case None
  then show ?thesis by (simp add: set_doctor_peer_id_def)
next
  case (Some session)
  have "length (active_calls sid (update_one (\<lambda>c. c_id c = cid)
          (\<lambda>c. c\<lparr>doctorPeerId := Some peer\<rparr>) (call_sessions d)))
        \<le> length (active_calls sid (call_sessions d))"
    by (rule calls_update_one_le) simp
  with Some show ?thesis by (simp add: set_doctor_peer_id_def)
qed

lemma le_set_patient_peer_id:
  "length (active_calls sid (call_sessions (snd (set_patient_peer_id cid peer u d))))
     \<le> length (active_calls sid (call_sessions d))"
proof (cases "find_one (\<lambda>c. c_id c = cid \<and> c_patientId c = u) (call_sessions d)")
  case None
  then show ?thesis by (simp add: set_patient_peer_id_def)
next
  case (Some session)
  have "length (active_calls sid (update_one (\<lambda>c. c_id c = cid)
          (\<lambda>c. c\<lparr>patientPeerId := Some peer\<rparr>) (call_sessions d)))
        \<le> length (active_calls sid (call_sessions d))"
    by (rule calls_update_one_le) simp
  with Some show ?thesis by (simp add: set_patient_peer_id_def)
qed

lemma calls_update_one_key_le:
  assumes "distinct (map c_id cs)" and "s \<in> set cs" and "c_id s = cid"
    and "c_scheduleId (f s) = sid \<Longrightarrow> is_active (c_status (f s)) \<Longrightarrow>
           c_scheduleId s = sid \<and> is_active (c_status s)"
  shows "length (active_calls sid (update_one (\<lambda>c. c_id c = cid) f cs))
           \<le> length (active_calls sid cs)"
  unfolding active_calls_def
  by (rule filter_update_one_key_le[OF assms(1,2,3)]) (use assms(4) in blast)

lemma le_confirm_call:
  assumes "unique_call_ids d"
  shows "length (active_calls sid (call_sessions (snd (confirm_call cid u e d))))
           \<le> length (active_calls sid (call_sessions d))"
proof (cases "find_one (\<lambda>c. c_id c = cid \<and> c_patientId c = u) (call_sessions d)")
  case None
  then show ?thesis by (simp add: confirm_call_def)
next
  case (Some session)
  from find_one_SomeD[OF Some] have m: "session \<in> set (call_sessions d)" "c_id session = cid"
    by simp_all
  show ?thesis
  proof (cases "c_status session = INVITED")
    case False
    with Some show ?thesis by (simp add: confirm_call_def)
  next
    case True
    have "length (active_calls sid (update_one (\<lambda>c. c_id c = cid)
            (\<lambda>c. c\<lparr>c_status := CONFIRMED, confirmedAt := Some (clock e 0)\<rparr>) (call_sessions d)))
          \<le> length (active_calls sid (call_sessions d))"
      using assms m True
      by (intro calls_update_one_key_le) (auto simp: unique_call_ids_def is_active_def)
    with Some True show ?thesis by (simp add: confirm_call_def Let_def log_audit_def)
  qed
qed

lemma le_activate_call:
  assumes "unique_call_ids d"
  shows "length (active_calls sid (call_sessions (snd (activate_call cid u d))))
           \<le> length (active_calls sid (call_sessions d))"
proof (cases "find_one (\<lambda>c. c_id c = cid) (call_sessions d)")
  case None
  then show ?thesis by (simp add: activate_call_def)
next
  case (Some session)
  from find_one_SomeD[OF Some] have m: "session \<in> set (call_sessions d)" "c_id session = cid"
    by simp_all
  show ?thesis
  proof (cases "c_status session = CONFIRMED")
    case False
    with Some show ?thesis by (simp add: activate_call_def)
  next
    case True
    have "length (active_calls sid (update_one (\<lambda>c. c_id c = cid)
            (\<lambda>c. c\<lparr>c_status := ACTIVE\<rparr>) (call_sessions d)))
          \<le> length (active_calls sid (call_sessions d))"
      using assms m True
      by (intro calls_update_one_key_le) (auto simp: unique_call_ids_def is_active_def)
    with Some True show ?thesis by (simp add: activate_call_def)
  qed
qed


lemma le_end_call_doctor:
  "length (active_calls sid (call_sessions (snd (end_call_doctor cid u e d))))
     \<le> length (active_calls sid (call_sessions d))"
proof (cases "find_one (\<lambda>c. c_id c = cid \<and> c_doctorId c = u) (call_sessions d)")
  case None
  then show ?thesis by (simp add: end_call_doctor_def)
next
  case (Some session)
  have upd: "length (active_calls sid (update_one (\<lambda>c. c_id c = cid)
          (\<lambda>c. c\<lparr>c_status := ENDED, endedAt := Some (clock e 0)\<rparr>) (call_sessions d)))
        \<le> length (active_calls sid (call_sessions d))"
    by (rule calls_update_one_le) (simp add: is_active_def)
  from Some upd show ?thesis by (simp add: end_call_doctor_def Let_def log_audit_def)
qed

lemma le_end_call_patient:
  "length (active_calls sid (call_sessions (snd (end_call_patient cid u e d))))
     \<le> length (active_calls sid (call_sessions d))"
proof (cases "find_one (\<lambda>c. c_id c = cid \<and> c_patientId c = u) (call_sessions d)")
  case None
  then show ?thesis by (simp add: end_call_patient_def)
next
  case (Some session)
  have upd: "length (active_calls sid (update_one (\<lambda>c. c_id c = cid)
          (\<lambda>c. c\<lparr>c_status := ENDED, endedAt := Some (clock e 0)\<rparr>) (call_sessions d)))
        \<le> length (active_calls sid (call_sessions d))"
    by (rule calls_update_one_le) (simp add: is_active_def)
  from Some upd show ?thesis by (simp add: end_call_patient_def Let_def log_audit_def)
qed

lemma le_decline_call:
  "length (active_calls sid (call_sessions (snd (decline_call cid u e d))))
     \<le> length (active_calls sid (call_sessions d))"
proof (cases "find_one (\<lambda>c. c_id c = cid \<and> c_patientId c = u) (call_sessions d)")
  case None
  then show ?thesis by (simp add: decline_call_def)
next
  case (Some session)
  have upd: "length (active_calls sid (update_one (\<lambda>c. c_id c = cid)
          (\<lambda>c. c\<lparr>c_status := DECLINED, endedAt := Some (clock e 0)\<rparr>) (call_sessions d)))
        \<le> length (active_calls sid (call_sessions d))"
    by (rule calls_update_one_le) (simp add: is_active_def)
  show ?thesis
  proof (cases "c_status session = INVITED")
    case False
    with Some show ?thesis by (simp add: decline_call_def)
  next
    case True
    with Some upd show ?thesis by (simp add: decline_call_def Let_def log_audit_def)
  qed
qed


lemma start_call_sessions_cases:
  "call_sessions (snd (start_call sid pid u e d)) = call_sessions d
   \<or> call_sessions (snd (start_call sid pid u e d)) =
        update_many (\<lambda>c. c_scheduleId c = sid \<and> c_status c = INVITED
                           \<and> createdAt c < clock e 0 - sixty_seconds)
          (\<lambda>c. c\<lparr>c_status := EXPIRED, endedAt := Some (clock e 1)\<rparr>) (call_sessions d)
   \<or> (call_sessions (snd (start_call sid pid u e d)) =
        update_many (\<lambda>c. c_scheduleId c = sid \<and> c_status c = INVITED
                           \<and> createdAt c < clock e 0 - sixty_seconds)
          (\<lambda>c. c\<lparr>c_status := EXPIRED, endedAt := Some (clock e 1)\<rparr>) (call_sessions d) @
        [\<lparr>c_id = uuid4 e 0, c_scheduleId = sid, c_doctorId = u, c_patientId = pid,
          c_status = INVITED, createdAt = clock e 2, confirmedAt = None, endedAt = None,
          doctorPeerId = None, patientPeerId = None\<rparr>]
      \<and> find_one (\<lambda>c. c_scheduleId c = sid \<and> is_active (c_status c))
           (update_many (\<lambda>c. c_scheduleId c = sid \<and> c_status c = INVITED
                              \<and> createdAt c < clock e 0 - sixty_seconds)
              (\<lambda>c. c\<lparr>c_status := EXPIRED, endedAt := Some (clock e 1)\<rparr>) (call_sessions d))
          = None)"
  by (simp add: start_call_def start_call_checks_def start_call_create_def Let_def
                log_audit_def insert_one_def split: option.splits)

lemma active_calls_append_new:
  assumes "find_one (\<lambda>c. c_scheduleId c = sid \<and> is_active (c_status c)) cs = None"
    and "c_scheduleId new = sid"
    and "length (active_calls sid' cs) \<le> 1"
  shows "length (active_calls sid' (cs @ [new])) \<le> 1"
proof (cases "sid' = sid")
  case True
  from assms(1) have "active_calls sid cs = []"
    by (simp add: active_calls_def find_one_None_iff filter_empty_conv)
  with True show ?thesis by (simp add: active_calls_def)
next
  case False
  with assms(2,3) show ?thesis by (simp add: active_calls_def)
qed

lemma start_call_keeps_calls:
  assumes "unique_call_ids d"
    and "\<forall>sid'. length (active_calls sid' (call_sessions d)) \<le> 1"
    and "uuid4 e 0 \<notin> set (map c_id (call_sessions d))"
  shows "unique_call_ids (snd (start_call sid pid u e d))
       \<and> (\<forall>sid'. length (active_calls sid' (call_sessions (snd (start_call sid pid u e d)))) \<le> 1)"
proof -
  let ?swept = "update_many (\<lambda>c. c_scheduleId c = sid \<and> c_status c = INVITED
                           \<and> createdAt c < clock e 0 - sixty_seconds)
          (\<lambda>c. c\<lparr>c_status := EXPIRED, endedAt := Some (clock e 1)\<rparr>) (call_sessions d)"
  let ?new = "\<lparr>c_id = uuid4 e 0, c_scheduleId = sid, c_doctorId = u, c_patientId = pid,
          c_status = INVITED, createdAt = clock e 2, confirmedAt = None, endedAt = None,
          doctorPeerId = None, patientPeerId = None\<rparr>"
  have ids: "map c_id ?swept = map c_id (call_sessions d)"
    by (simp add: map_update_many)
  have le: "length (active_calls sid' ?swept) \<le> length (active_calls sid' (call_sessions d))"
    for sid'
    by (rule calls_update_many_le) (simp add: is_active_def)
  from assms(2) le have sw: "length (active_calls sid' ?swept) \<le> 1" for sid'
    using order_trans by blast
  from start_call_sessions_cases[of sid pid u e d] show ?thesis
  proof (elim disjE conjE)
    assume "call_sessions (snd (start_call sid pid u e d)) = call_sessions d"
    with assms show ?thesis by (simp add: unique_call_ids_def)
  next
    assume "call_sessions (snd (start_call sid pid u e d)) = ?swept"
    with assms(1) ids sw show ?thesis by (simp add: unique_call_ids_def)
  next
    assume new: "call_sessions (snd (start_call sid pid u e d)) = ?swept @ [?new]"
      and none: "find_one (\<lambda>c. c_scheduleId c = sid \<and> is_active (c_status c)) ?swept = None"
    have "length (active_calls sid' (?swept @ [?new])) \<le> 1" for sid'
      by (rule active_calls_append_new[OF none _ sw]) simp
    with new assms(1,3) ids show ?thesis by (simp add: unique_call_ids_def)
  qed
qed


lemma keeps_calls:
  assumes "unique_call_ids d" and "single_active_call d"
    and "map c_id (call_sessions d') = map c_id (call_sessions d)"
    and "\<And>sid. length (active_calls sid (call_sessions d'))
                 \<le> length (active_calls sid (call_sessions d))"
  shows "unique_call_ids d' \<and> single_active_call d'"
proof -
  from assms(2) have "length (active_calls sid (call_sessions d)) \<le> 1" for sid
    by (simp add: single_active_call_iff)
  with assms(4) have "length (active_calls sid (call_sessions d')) \<le> 1" for sid
    using order_trans by blast
  with assms(1,3) show ?thesis
    by (simp add: single_active_call_iff unique_call_ids_def)
qed

lemma start_call_checks_two_ready_1:
  "start_call_checks ''s1'' ''p1'' ''d1'' ex_env db_two_ready = (Inr (), db_two_ready)"
  by (simp add: start_call_checks_def db_two_ready_def ex_schedule_def ex_entry_def
                update_many_def Let_def)

lemma start_call_checks_two_ready_2:
  "start_call_checks ''s1'' ''p2'' ''d1'' ex_env2 db_two_ready = (Inr (), db_two_ready)"
  by (simp add: start_call_checks_def db_two_ready_def ex_schedule_def ex_entry_def
                update_many_def Let_def)

lemma start_call_race_two_ready:
  "map_option call_sessions
     (start_call_race ''s1'' ''p1'' ''p2'' ''d1'' ex_env ex_env2 db_two_ready)
   = Some [\<lparr>c_id = ''u0'', c_scheduleId = ''s1'', c_doctorId = ''d1'', c_patientId = ''p1'',
            c_status = INVITED, createdAt = 100000002, confirmedAt = None, endedAt = None,
            doctorPeerId = None, patientPeerId = None\<rparr>,
           \<lparr>c_id = ''v0'', c_scheduleId = ''s1'', c_doctorId = ''d1'', c_patientId = ''p2'',
            c_status = INVITED, createdAt = 100000012, confirmedAt = None, endedAt = None,
            doctorPeerId = None, patientPeerId = None\<rparr>]"
proof -
  have r: "start_call_race ''s1'' ''p1'' ''p2'' ''d1'' ex_env ex_env2 db_two_ready
             = Some (snd (start_call_create ''s1'' ''p2'' ''d1'' ex_env2
                      (snd (start_call_create ''s1'' ''p1'' ''d1'' ex_env db_two_ready))))"
    by (simp add: start_call_race_def start_call_checks_two_ready_1
                  start_call_checks_two_ready_2)
  show ?thesis
    unfolding r
    by (simp add: start_call_create_def Let_def log_audit_def insert_one_def db_two_ready_def
                  ex_env_def ex_env2_def)
qed

text \<open>
  C1, as stated, fails under concurrent invitations: the check for an active call and the
  insertion are separate awaited database calls, and nothing serialises two requests. From
  a database without any call, two interleaved \<open>start_call\<close> requests both pass the check
  and leave two INVITED sessions on the schedule.
\<close>

theorem start_call_race_counterexample:
  "unique_call_ids db_two_ready \<and> single_active_call db_two_ready
   \<and> map_option (map c_id \<circ> active_calls ''s1'' \<circ> call_sessions)
        (start_call_race ''s1'' ''p1'' ''p2'' ''d1'' ex_env ex_env2 db_two_ready)
      = Some [''u0'', ''v0'']
   \<and> map_option single_active_call
        (start_call_race ''s1'' ''p1'' ''p2'' ''d1'' ex_env ex_env2 db_two_ready)
      = Some False"
proof -
  have a: "unique_call_ids db_two_ready"
    by (simp add: unique_call_ids_def db_two_ready_def)
  have b: "single_active_call db_two_ready"
    by (simp add: single_active_call_def db_two_ready_def)
  from start_call_race_two_ready obtain d'
    where r: "start_call_race ''s1'' ''p1'' ''p2'' ''d1'' ex_env ex_env2 db_two_ready = Some d'"
      and cs: "call_sessions d' =
          [\<lparr>c_id = ''u0'', c_scheduleId = ''s1'', c_doctorId = ''d1'', c_patientId = ''p1'',
            c_status = INVITED, createdAt = 100000002, confirmedAt = None, endedAt = None,
            doctorPeerId = None, patientPeerId = None\<rparr>,
           \<lparr>c_id = ''v0'', c_scheduleId = ''s1'', c_doctorId = ''d1'', c_patientId = ''p2'',
            c_status = INVITED, createdAt = 100000012, confirmedAt = None, endedAt = None,
            doctorPeerId = None, patientPeerId = None\<rparr>]"
    by (cases "start_call_race ''s1'' ''p1'' ''p2'' ''d1'' ex_env ex_env2 db_two_ready") simp_all
  have c: "map c_id (active_calls ''s1'' (call_sessions d')) = [''u0'', ''v0'']"
    by (simp add: cs active_calls_def is_active_def)
  have d: "\<not> single_active_call d'"
    by (simp add: single_active_call_def cs active_calls_def is_active_def)
  from a b c d show ?thesis by (simp add: r)
qed

text \<open>
  C1, amended: for requests that run one after the other, each to completion, the rule is
  an invariant. From a database whose call sessions have distinct ids and where no schedule
  has two active calls, every request leads to such a database again, provided the id that
  \<open>start_call\<close> draws for the new session is not in use.
\<close>

theorem handle_keeps_single_active_call:
  assumes "unique_call_ids d" and "single_active_call d"
    and "\<forall>sid pid. r = StartCall sid pid \<longrightarrow> uuid4 e 0 \<notin> set (map c_id (call_sessions d))"
  shows "unique_call_ids (snd (handle r u e d)) \<and> single_active_call (snd (handle r u e d))"
proof (cases r)
  case (CreateSchedule dt st en)
  have "unique_call_ids (snd (create_schedule dt st en u e d))
      \<and> single_active_call (snd (create_schedule dt st en u e d))"
    by (rule keeps_calls[OF assms(1,2)]) (simp_all add: cs_create_schedule)
  with CreateSchedule show ?thesis by simp
next
  case (StartPractice sid)
  have "unique_call_ids (snd (start_practice sid u e d))
      \<and> single_active_call (snd (start_practice sid u e d))"
    by (rule keeps_calls[OF assms(1,2)]) (simp_all add: cs_start_practice)
  with StartPractice show ?thesis by simp
next
  case (EndPractice sid)
  have "unique_call_ids (snd (end_practice sid u e d))
      \<and> single_active_call (snd (end_practice sid u e d))"
    by (rule keeps_calls[OF assms(1,2) ids_end_practice le_end_practice])
  with EndPractice show ?thesis by simp
next
  case (StartCall sid pid)
  with assms(3) have fresh: "uuid4 e 0 \<notin> set (map c_id (call_sessions d))" by simp
  from assms(2) have "\<forall>sid'. length (active_calls sid' (call_sessions d)) \<le> 1"
    by (simp add: single_active_call_iff)
  from start_call_keeps_calls[OF assms(1) this fresh, of sid pid u]
  have "unique_call_ids (snd (start_call sid pid u e d))
      \<and> single_active_call (snd (start_call sid pid u e d))"
    by (simp add: single_active_call_iff)
  with StartCall show ?thesis by simp
next
  case (SetDoctorPeerId cid peer)
  have "unique_call_ids (snd (set_doctor_peer_id cid peer u d))
      \<and> single_active_call (snd (set_doctor_peer_id cid peer u d))"
    by (rule keeps_calls[OF assms(1,2) ids_set_doctor_peer_id le_set_doctor_peer_id])
  with SetDoctorPeerId show ?thesis by simp
next
  case (EndCallDoctor cid)
  have "unique_call_ids (snd (end_call_doctor cid u e d))
      \<and> single_active_call (snd (end_call_doctor cid u e d))"
    by (rule keeps_calls[OF assms(1,2) ids_end_call_doctor le_end_call_doctor])
  with EndCallDoctor show ?thesis by simp
next
  case (JoinQueue sid)
  have "unique_call_ids (snd (join_queue sid u e d))
      \<and> single_active_call (snd (join_queue sid u e d))"
    by (rule keeps_calls[OF assms(1,2)]) (simp_all add: cs_join_queue)
  with JoinQueue show ?thesis by simp
next
  case (ToggleReady sid rdy)
  have "unique_call_ids (snd (toggle_ready sid rdy u e d))
      \<and> single_active_call (snd (toggle_ready sid rdy u e d))"
    by (rule keeps_calls[OF assms(1,2)]) (simp_all add: cs_toggle_ready)
  with ToggleReady show ?thesis by simp
next
  case (ConfirmCall cid)
  have "unique_call_ids (snd (confirm_call cid u e d))
      \<and> single_active_call (snd (confirm_call cid u e d))"
    by (rule keeps_calls[OF assms(1,2) ids_confirm_call le_confirm_call[OF assms(1)]])
  with ConfirmCall show ?thesis by simp
next
  case (DeclineCall cid)
  have "unique_call_ids (snd (decline_call cid u e d))
      \<and> single_active_call (snd (decline_call cid u e d))"
    by (rule keeps_calls[OF assms(1,2) ids_decline_call le_decline_call])
  with DeclineCall show ?thesis by simp
next
  case (SetPatientPeerId cid peer)
  have "unique_call_ids (snd (set_patient_peer_id cid peer u d))
      \<and> single_active_call (snd (set_patient_peer_id cid peer u d))"
    by (rule keeps_calls[OF assms(1,2) ids_set_patient_peer_id le_set_patient_peer_id])
  with SetPatientPeerId show ?thesis by simp
next
  case (EndCallPatient cid)
  have "unique_call_ids (snd (end_call_patient cid u e d))
      \<and> single_active_call (snd (end_call_patient cid u e d))"
    by (rule keeps_calls[OF assms(1,2) ids_end_call_patient le_end_call_patient])
  with EndCallPatient show ?thesis by simp
next
  case (ActivateCall cid)
  have "unique_call_ids (snd (activate_call cid u d))
      \<and> single_active_call (snd (activate_call cid u d))"
    by (rule keeps_calls[OF assms(1,2) ids_activate_call le_activate_call[OF assms(1)]])
  with ActivateCall show ?thesis by simp
qed

theorem handle_keeps_single_active_call_witness:
  "unique_call_ids db_invited \<and> single_active_call db_invited
   \<and> unique_call_ids (snd (handle (StartCall ''s1'' ''p1'') ''d1'' ex_env db_invited))
   \<and> single_active_call (snd (handle (StartCall ''s1'' ''p1'') ''d1'' ex_env db_invited))"
proof -
  have a: "single_active_call db_invited"
    by (simp add: single_active_call_def db_invited_def active_calls_def)
  have fresh: "\<forall>sid pid. StartCall ''s1'' ''p1'' = StartCall sid pid \<longrightarrow>
                 uuid4 ex_env 0 \<notin> set (map c_id (call_sessions db_invited))"
    by (simp add: db_invited_def ex_call_def ex_env_def)
  from handle_keeps_single_active_call[OF db_invited_unique a fresh, of "''d1''"]
       db_invited_unique a
  show ?thesis by (intro conjI) simp_all
qed

end
